theory Spec2Isabelle
  imports Main
begin

section \<open>Data model of the Connect page\<close>

text \<open>
  A JavaScript string is a sequence of UTF-16 code units. Literals of the source are
  written \<open>str ''...''\<close>.
\<close>

type_synonym jsstring = "nat list"

definition str :: "string \<Rightarrow> jsstring" where
  "str s = map of_char s"

text \<open>
  The white space and line terminator code units that \<open>String.prototype.trim\<close> strips.
\<close>

definition js_whitespace :: "nat \<Rightarrow> bool" where
  "js_whitespace c \<longleftrightarrow>
     c \<in> {9, 10, 11, 12, 13, 32, 160, 5760, 8232, 8233, 8239, 8287, 12288, 65279}
     \<or> (8192 \<le> c \<and> c \<le> 8202)"

definition trim :: "jsstring \<Rightarrow> jsstring" where
  "trim s = rev (dropWhile js_whitespace (rev (dropWhile js_whitespace s)))"

subsection \<open>Rows of the remote relations\<close>

datatype account_type = CreatorAccount | MemberAccount

datatype connection_type = Follow | Colleague

datatype request_status = Pending | Accepted | Rejected

record profile =
  p_id :: jsstring
  p_name :: jsstring
  p_avatar_url :: jsstring
  p_tier :: jsstring
  p_followers :: int
  p_bio :: jsstring
  p_created_at :: jsstring
  p_account_type :: account_type

record member_connection =
  mc_member_id :: jsstring
  mc_connected_user_id :: jsstring
  mc_connection_type :: connection_type
  mc_status :: jsstring

record media_page_follow =
  mf_follower_id :: jsstring
  mf_creator_name :: jsstring

record connection_request =
  cr_id :: nat
  cr_sender_id :: jsstring
  cr_recipient_id :: jsstring
  cr_message :: "jsstring option"
  cr_status :: request_status

record message_row =
  mr_id :: nat
  mr_sender_id :: jsstring
  mr_recipient_id :: jsstring
  mr_content :: jsstring
  mr_timestamp :: nat
  mr_read :: bool

text \<open>
  The remote store. Row identifiers of \<open>connection_requests\<close> and \<open>messages\<close> are
  generated by the store from \<open>next_id\<close>.
\<close>

record database =
  profiles :: "profile list"
  member_connections :: "member_connection list"
  media_page_follows :: "media_page_follow list"
  connection_requests :: "connection_request list"
  messages_rel :: "message_row list"
  next_id :: nat

text \<open>
  What one awaited gateway call does: it resolves without an error (\<open>Ok\<close>; a mutation is
  applied, a query yields its rows), it resolves with \<open>error\<close> set and \<open>data\<close> null
  (\<open>Failed\<close>; nothing is applied), or the awaited promise rejects and control passes to
  the enclosing \<open>catch\<close> (\<open>Thrown\<close>; nothing is applied).
\<close>

datatype outcome = Ok | Failed | Thrown

subsection \<open>View state of the component\<close>

record creator =
  c_id :: jsstring
  c_name :: jsstring
  c_avatar_url :: jsstring
  c_tier :: jsstring
  c_followers :: int
  c_bio :: jsstring
  c_followed :: bool
  c_created_at :: jsstring

datatype view_request_status = RequestPending | RequestNone

text \<open>
  The member query selects no \<open>followers\<close> column and no request status, so both are
  optional in a member object: \<open>None\<close> is the absent property.
\<close>

record member =
  m_id :: jsstring
  m_name :: jsstring
  m_avatar_url :: jsstring
  m_tier :: jsstring
  m_bio :: jsstring
  m_followers :: "int option"
  m_connected :: bool
  m_requestStatus :: "view_request_status option"

record connection =
  cn_id :: jsstring
  cn_name :: jsstring
  cn_avatar_url :: jsstring
  cn_role :: account_type
  cn_bio :: jsstring
  cn_isFollowing :: bool

record message =
  msg_id :: nat
  msg_sender_id :: jsstring
  msg_sender_name :: jsstring
  msg_sender_avatar :: jsstring
  msg_content :: jsstring
  msg_timestamp :: nat
  msg_read :: bool

datatype toast_type = Success | Error

record toast =
  t_id :: jsstring
  t_type :: toast_type
  t_message :: jsstring

datatype reload = ReloadCreators | ReloadMembers

text \<open>
  The React state that the operations below read or write, the two \<open>localStorage\<close>
  entries, and the timers set by \<open>setTimeout\<close>, each with the time at which it is due
  (milliseconds). \<open>storage_available\<close> is false when every \<open>localStorage\<close> access
  throws. Each operation is taken as one atomic step: its awaited calls are not
  interleaved with other handlers.
\<close>

record page =
  creators :: "creator list"
  members :: "member list"
  messages :: "message list"
  creatorsLoaded :: bool
  membersLoaded :: bool
  selectedConnection :: "connection option"
  messageInput :: jsstring
  toasts :: "toast list"
  pendingRequests :: "jsstring \<rightharpoonup> bool"
  cache_creators :: "creator list option"
  cache_members :: "member list option"
  storage_available :: bool
  clock :: nat
  toast_timers :: "(nat \<times> jsstring) list"
  reload_timers :: "(nat \<times> reload) list"

section \<open>Local cache\<close>

definition setCachedCreators :: "creator list \<Rightarrow> page \<Rightarrow> page" where
  "setCachedCreators data s =
     (if storage_available s then s\<lparr>cache_creators := Some data\<rparr> else s)"

definition setCachedMembers :: "member list \<Rightarrow> page \<Rightarrow> page" where
  "setCachedMembers data s =
     (if storage_available s then s\<lparr>cache_members := Some data\<rparr> else s)"

definition getCachedCreators :: "page \<Rightarrow> creator list option" where
  "getCachedCreators s = (if storage_available s then cache_creators s else None)"

definition getCachedMembers :: "page \<Rightarrow> member list option" where
  "getCachedMembers s = (if storage_available s then cache_members s else None)"

text \<open>\<open>localStorage.removeItem('connect_members_cache')\<close> inside its \<open>try\<close>.\<close>

definition removeCachedMembers :: "page \<Rightarrow> page" where
  "removeCachedMembers s =
     (if storage_available s then s\<lparr>cache_members := None\<rparr> else s)"

section \<open>Notification dispatcher\<close>

definition TOAST_DURATION :: nat where
  "TOAST_DURATION = 4000"

text \<open>
  \<open>addToast\<close>: the identifier \<open>tid\<close> is the value of
  \<open>Math.random().toString(36).substr(2, 9)\<close>, an input of the model.
\<close>

definition addToast :: "jsstring \<Rightarrow> toast_type \<Rightarrow> jsstring \<Rightarrow> page \<Rightarrow> page" where
  "addToast msg ty tid s =
     s\<lparr>toasts := toasts s @ [\<lparr>t_id = tid, t_type = ty, t_message = msg\<rparr>],
       toast_timers := toast_timers s @ [(clock s + TOAST_DURATION, tid)]\<rparr>"

text \<open>The callback of the timer set by \<open>addToast\<close>.\<close>

definition removeToast :: "jsstring \<Rightarrow> page \<Rightarrow> page" where
  "removeToast tid s = s\<lparr>toasts := filter (\<lambda>t. t_id t \<noteq> tid) (toasts s)\<rparr>"

text \<open>
  Time passes by \<open>d\<close> milliseconds: the toast timers that fall due run in the order in
  which they were set. Delayed reloads read the remote store, so they are run by
  the environment (\<open>loadCreators\<close>, \<open>loadMembers\<close>) and stay in \<open>reload_timers\<close>.
\<close>

definition elapse :: "nat \<Rightarrow> page \<Rightarrow> page" where
  "elapse d s =
     (let t = clock s + d;
          due = filter (\<lambda>(at, tid). at \<le> t) (toast_timers s);
          s1 = fold (\<lambda>(at, tid). removeToast tid) due s
      in s1\<lparr>clock := t,
            toast_timers := filter (\<lambda>(at, tid). \<not> at \<le> t) (toast_timers s)\<rparr>)"

definition setTimeout :: "reload \<Rightarrow> nat \<Rightarrow> page \<Rightarrow> page" where
  "setTimeout r delay s = s\<lparr>reload_timers := reload_timers s @ [(clock s + delay, r)]\<rparr>"

section \<open>Reconciliation passes\<close>

definition creator_of :: "profile \<Rightarrow> bool \<Rightarrow> creator" where
  "creator_of p f =
     \<lparr>c_id = p_id p, c_name = p_name p, c_avatar_url = p_avatar_url p, c_tier = p_tier p,
      c_followers = p_followers p, c_bio = p_bio p, c_followed = f,
      c_created_at = p_created_at p\<rparr>"

text \<open>
  \<open>loadCreators\<close>. \<open>r1\<close>, \<open>r2\<close>, \<open>r3\<close> are the outcomes of the reads of \<open>profiles\<close>,
  \<open>member_connections\<close> and \<open>media_page_follows\<close>; \<open>tid\<close> identifies the toast of the
  \<open>catch\<close> branch.
\<close>

definition loadCreators ::
  "jsstring \<Rightarrow> database \<Rightarrow> outcome \<Rightarrow> outcome \<Rightarrow> outcome \<Rightarrow> jsstring \<Rightarrow> page \<Rightarrow> page" where
  "loadCreators uid db r1 r2 r3 tid s =
     (if r1 = Thrown then addToast (str ''Failed to load creators'') Error tid s
      else if r1 = Failed then s
      else
        let data = take 100 (filter (\<lambda>p. p_account_type p = CreatorAccount) (profiles db)) in
        if r2 = Thrown then addToast (str ''Failed to load creators'') Error tid s
        else
          let followedViaConnectionIds =
                (if r2 = Ok
                 then map mc_connected_user_id
                        (filter (\<lambda>e. mc_member_id e = uid \<and> mc_connection_type e = Follow)
                           (member_connections db))
                 else []) in
          if r3 = Thrown then addToast (str ''Failed to load creators'') Error tid s
          else
            let followedViaMediaNames =
                  (if r3 = Ok
                   then map mf_creator_name
                          (filter (\<lambda>f. mf_follower_id f = uid) (media_page_follows db))
                   else []);
                creatorsWithFollowStatus =
                  map (\<lambda>p. creator_of p
                         (p_id p \<in> set followedViaConnectionIds
                          \<or> p_name p \<in> set followedViaMediaNames)) data
            in (setCachedCreators creatorsWithFollowStatus
                  (s\<lparr>creators := creatorsWithFollowStatus\<rparr>))\<lparr>creatorsLoaded := True\<rparr>)"

text \<open>The \<open>connectionCounts\<close> map of \<open>loadMembers\<close>: one \<open>forEach\<close> step and the loop.\<close>

definition count_edge :: "member_connection \<Rightarrow> (jsstring \<rightharpoonup> nat) \<Rightarrow> (jsstring \<rightharpoonup> nat)" where
  "count_edge conn counts =
     (let c1 = counts(mc_connected_user_id conn \<mapsto>
                  (case counts (mc_connected_user_id conn) of None \<Rightarrow> 0 | Some n \<Rightarrow> n) + 1)
      in c1(mc_member_id conn \<mapsto>
              (case c1 (mc_member_id conn) of None \<Rightarrow> 0 | Some n \<Rightarrow> n) + 1))"

definition connectionCounts :: "member_connection list \<Rightarrow> (jsstring \<rightharpoonup> nat)" where
  "connectionCounts conns = fold count_edge conns Map.empty"

definition member_of ::
  "profile \<Rightarrow> int option \<Rightarrow> bool \<Rightarrow> view_request_status option \<Rightarrow> member" where
  "member_of p n c r =
     \<lparr>m_id = p_id p, m_name = p_name p, m_avatar_url = p_avatar_url p, m_tier = p_tier p,
      m_bio = p_bio p, m_followers = n, m_connected = c, m_requestStatus = r\<rparr>"

text \<open>
  \<open>pendingRequestsMap\<close> is a plain object, so reading a key that names a property of
  \<open>Object.prototype\<close> yields that property, which is truthy, whether or not the key was
  stored.
\<close>

definition object_prototype_key :: "jsstring \<Rightarrow> bool" where
  "object_prototype_key k \<longleftrightarrow>
     k \<in> set (map str
       [''constructor'', ''hasOwnProperty'', ''isPrototypeOf'', ''propertyIsEnumerable'',
        ''toLocaleString'', ''toString'', ''valueOf'', ''__proto__'', ''__defineGetter__'',
        ''__defineSetter__'', ''__lookupGetter__'', ''__lookupSetter__''])"

text \<open>
  \<open>loadMembers\<close>. \<open>r1\<close> to \<open>r5\<close> are the outcomes of the reads of \<open>profiles\<close>, outgoing
  edges, incoming edges, all colleague edges and sent requests.
\<close>

definition loadMembers ::
  "jsstring \<Rightarrow> database \<Rightarrow> outcome \<Rightarrow> outcome \<Rightarrow> outcome \<Rightarrow> outcome \<Rightarrow> outcome \<Rightarrow> page \<Rightarrow> page"
  where
  "loadMembers uid db r1 r2 r3 r4 r5 s =
     (if r1 \<noteq> Ok \<or> r2 = Thrown \<or> r3 = Thrown \<or> r4 = Thrown \<or> r5 = Thrown then s
      else
        let data = take 50 (filter (\<lambda>p. p_account_type p = MemberAccount \<and> p_id p \<noteq> uid)
                              (profiles db));
            outgoingConnections =
              (if r2 = Ok
               then map mc_connected_user_id
                      (filter (\<lambda>e. mc_member_id e = uid \<and> mc_connection_type e = Colleague)
                         (member_connections db))
               else []);
            incomingConnections =
              (if r3 = Ok
               then map mc_member_id
                      (filter (\<lambda>e. mc_connected_user_id e = uid
                                  \<and> mc_connection_type e = Colleague)
                         (member_connections db))
               else []);
            connectedWithIds = outgoingConnections @ incomingConnections;
            allConnectionsData =
              (if r4 = Ok
               then filter (\<lambda>e. mc_connection_type e = Colleague) (member_connections db)
               else []);
            counts = connectionCounts allConnectionsData;
            sentRequests =
              (if r5 = Ok
               then map cr_recipient_id
                      (filter (\<lambda>q. cr_sender_id q = uid \<and> cr_status q = Pending)
                         (connection_requests db))
               else []);
            pendingRequestsMap = fold (\<lambda>rid m. m(rid \<mapsto> True)) sentRequests Map.empty;
            membersWithConnectionStatus =
              map (\<lambda>p. member_of p
                     (Some (case counts (p_id p) of None \<Rightarrow> 0 | Some n \<Rightarrow> int n))
                     (p_id p \<in> set connectedWithIds)
                     (Some (if pendingRequestsMap (p_id p) = Some True
                               \<or> object_prototype_key (p_id p)
                            then RequestPending else RequestNone))) data;
            membersForCache = map (\<lambda>p. member_of p None False None) data
        in (setCachedMembers membersForCache
              (s\<lparr>pendingRequests := pendingRequestsMap,
                 members := membersWithConnectionStatus\<rparr>))\<lparr>membersLoaded := True\<rparr>)"

text \<open>
  \<open>loadMessages\<close>: the rows addressed to the current user, newest first, at most 50,
  each joined with its sender's profile. \<open>||\<close> replaces a missing sender and an empty
  name alike.
\<close>

definition message_of :: "database \<Rightarrow> message_row \<Rightarrow> message" where
  "message_of db r =
     (let sender = find (\<lambda>p. p_id p = mr_sender_id r) (profiles db) in
      \<lparr>msg_id = mr_id r, msg_sender_id = mr_sender_id r,
       msg_sender_name =
         (case sender of None \<Rightarrow> str ''Unknown''
          | Some p \<Rightarrow> if p_name p = [] then str ''Unknown'' else p_name p),
       msg_sender_avatar = (case sender of None \<Rightarrow> [] | Some p \<Rightarrow> p_avatar_url p),
       msg_content = mr_content r, msg_timestamp = mr_timestamp r, msg_read = mr_read r\<rparr>)"

definition loadMessages :: "jsstring \<Rightarrow> database \<Rightarrow> outcome \<Rightarrow> page \<Rightarrow> page" where
  "loadMessages uid db r s =
     (if r = Ok
      then s\<lparr>messages :=
               map (message_of db)
                 (take 50 (sort_key (\<lambda>m. - int (mr_timestamp m))
                    (filter (\<lambda>m. mr_recipient_id m = uid) (messages_rel db))))\<rparr>
      else s)"

text \<open>
  The callback of the \<open>profiles\<close> subscription: \<open>pid\<close> and \<open>n\<close> are the id and the
  follower counter of the updated profile row.
\<close>

definition profilesSubscription :: "jsstring \<Rightarrow> int \<Rightarrow> page \<Rightarrow> page" where
  "profilesSubscription pid n s =
     (let updatedCreators =
            map (\<lambda>c. if c_id c = pid then c\<lparr>c_followers := n\<rparr> else c) (creators s);
          s1 = setCachedCreators updatedCreators (s\<lparr>creators := updatedCreators\<rparr>);
          updatedMembers =
            map (\<lambda>m. if m_id m = pid then m\<lparr>m_followers := Some n\<rparr> else m) (members s1)
      in setCachedMembers updatedMembers (s1\<lparr>members := updatedMembers\<rparr>))"

section \<open>Mutating operations\<close>

text \<open>
  Each handler takes the current user's id, its argument, the outcome of every gateway
  call it may await (in program order), the identifier of the toast it may add, and the
  remote store with the page state; it returns both. A call after a \<open>Thrown\<close> one is
  never made.
\<close>

definition handleFollowCreator ::
  "jsstring \<Rightarrow> creator \<Rightarrow> outcome \<Rightarrow> outcome \<Rightarrow> jsstring \<Rightarrow> database \<times> page
     \<Rightarrow> database \<times> page" where
  "handleFollowCreator uid cr o1 o2 tid st =
     (let db = fst st; s = snd st in
      if o1 = Thrown then (db, addToast (str ''Failed to follow creator'') Error tid s)
      else
        let db1 = (if o1 = Ok
                   then db\<lparr>member_connections := member_connections db @
                            [\<lparr>mc_member_id = uid, mc_connected_user_id = c_id cr,
                              mc_connection_type = Follow, mc_status = str ''active''\<rparr>]\<rparr>
                   else db) in
        if o2 = Thrown then (db1, addToast (str ''Failed to follow creator'') Error tid s)
        else
          let db2 = (if o2 = Ok
                     then db1\<lparr>media_page_follows := media_page_follows db1 @
                               [\<lparr>mf_follower_id = uid, mf_creator_name = c_name cr\<rparr>]\<rparr>
                     else db1) in
          if o1 = Ok \<and> o2 = Ok
          then (db2,
                setTimeout ReloadCreators 1000
                  (addToast (str ''Now following '' @ c_name cr) Success tid
                     (s\<lparr>creators :=
                          map (\<lambda>c. if c_id c = c_id cr then c\<lparr>c_followed := True\<rparr> else c)
                            (creators s)\<rparr>)))
          else (db2, addToast (str ''Failed to follow creator'') Error tid s))"

definition handleUnfollowCreator ::
  "jsstring \<Rightarrow> jsstring \<Rightarrow> outcome \<Rightarrow> outcome \<Rightarrow> jsstring \<Rightarrow> database \<times> page
     \<Rightarrow> database \<times> page" where
  "handleUnfollowCreator uid creatorId o1 o2 tid st =
     (let db = fst st; s = snd st in
      case find (\<lambda>c. c_id c = creatorId) (creators s) of
        None \<Rightarrow> (db, addToast (str ''Creator not found'') Error tid s)
      | Some creatorToUnfollow \<Rightarrow>
          if o1 = Thrown then (db, addToast (str ''Failed to unfollow creator'') Error tid s)
          else
            let db1 = (if o1 = Ok
                       then db\<lparr>member_connections :=
                                filter (\<lambda>e. \<not> (mc_member_id e = uid
                                              \<and> mc_connected_user_id e = creatorId))
                                  (member_connections db)\<rparr>
                       else db) in
            if o2 = Thrown
            then (db1, addToast (str ''Failed to unfollow creator'') Error tid s)
            else
              let db2 = (if o2 = Ok
                         then db1\<lparr>media_page_follows :=
                                   filter (\<lambda>f. \<not> (mf_follower_id f = uid
                                                 \<and> mf_creator_name f = c_name creatorToUnfollow))
                                     (media_page_follows db1)\<rparr>
                         else db1) in
              if o1 = Ok \<and> o2 = Ok
              then (db2,
                    setTimeout ReloadCreators 1000
                      (addToast (str ''Unfollowed creator'') Success tid
                         (s\<lparr>creators :=
                              map (\<lambda>c. if c_id c = creatorId then c\<lparr>c_followed := False\<rparr> else c)
                                (creators s)\<rparr>)))
              else (db2, addToast (str ''Failed to unfollow creator'') Error tid s))"

definition handleConnectMember ::
  "jsstring \<Rightarrow> member \<Rightarrow> outcome \<Rightarrow> jsstring \<Rightarrow> database \<times> page \<Rightarrow> database \<times> page" where
  "handleConnectMember uid mb o1 tid st =
     (let db = fst st; s = snd st in
      if o1 = Ok
      then (db\<lparr>connection_requests := connection_requests db @
                 [\<lparr>cr_id = next_id db, cr_sender_id = uid, cr_recipient_id = m_id mb,
                   cr_message = None, cr_status = Pending\<rparr>],
               next_id := Suc (next_id db)\<rparr>,
            addToast (str ''Connection request sent to '' @ m_name mb) Success tid
              (s\<lparr>members :=
                   map (\<lambda>m. if m_id m = m_id mb
                             then m\<lparr>m_requestStatus := Some RequestPending\<rparr> else m)
                     (members s),
                 pendingRequests := (pendingRequests s)(m_id mb \<mapsto> True)\<rparr>))
      else (db, addToast (str ''Failed to send connection request'') Error tid s))"

text \<open>The lookup shared by accepting and declining: its \<open>data\<close>, null when it failed.\<close>

definition pending_requests_from ::
  "jsstring \<Rightarrow> jsstring \<Rightarrow> database \<Rightarrow> connection_request list" where
  "pending_requests_from memberId uid db =
     filter (\<lambda>q. cr_sender_id q = memberId \<and> cr_recipient_id q = uid \<and> cr_status q = Pending)
       (connection_requests db)"

definition update_request_status :: "nat \<Rightarrow> request_status \<Rightarrow> database \<Rightarrow> database" where
  "update_request_status rid st db =
     db\<lparr>connection_requests :=
          map (\<lambda>q. if cr_id q = rid then q\<lparr>cr_status := st\<rparr> else q) (connection_requests db)\<rparr>"

definition handleAcceptConnectionRequest ::
  "jsstring \<Rightarrow> jsstring \<Rightarrow> outcome \<Rightarrow> outcome \<Rightarrow> outcome \<Rightarrow> jsstring \<Rightarrow> database \<times> page
     \<Rightarrow> database \<times> page" where
  "handleAcceptConnectionRequest uid memberId o1 o2 o3 tid st =
     (let db = fst st; s = snd st in
      if o1 = Thrown
      then (db, addToast (str ''Failed to accept connection request'') Error tid s)
      else
        case (if o1 = Ok then pending_requests_from memberId uid db else []) of
          [] \<Rightarrow> (db, s)
        | q # _ \<Rightarrow>
            if o2 = Thrown
            then (db, addToast (str ''Failed to accept connection request'') Error tid s)
            else if o2 = Failed then (db, s)
            else
              let db1 = update_request_status (cr_id q) Accepted db in
              if o3 = Thrown
              then (db1, addToast (str ''Failed to accept connection request'') Error tid s)
              else if o3 = Failed then (db1, s)
              else
                (db1\<lparr>member_connections := member_connections db1 @
                        [\<lparr>mc_member_id = memberId, mc_connected_user_id = uid,
                          mc_connection_type = Colleague, mc_status = str ''active''\<rparr>]\<rparr>,
                 setTimeout ReloadMembers 500
                   (addToast (str ''Connection accepted'') Success tid
                      (removeCachedMembers s))))"

definition handleDeclineConnectionRequest ::
  "jsstring \<Rightarrow> jsstring \<Rightarrow> outcome \<Rightarrow> outcome \<Rightarrow> jsstring \<Rightarrow> database \<times> page
     \<Rightarrow> database \<times> page" where
  "handleDeclineConnectionRequest uid memberId o1 o2 tid st =
     (let db = fst st; s = snd st in
      if o1 = Thrown
      then (db, addToast (str ''Failed to decline connection request'') Error tid s)
      else
        case (if o1 = Ok then pending_requests_from memberId uid db else []) of
          [] \<Rightarrow> (db, s)
        | q # _ \<Rightarrow>
            if o2 = Thrown
            then (db, addToast (str ''Failed to decline connection request'') Error tid s)
            else if o2 = Failed then (db, s)
            else
              (update_request_status (cr_id q) Rejected db,
               setTimeout ReloadMembers 500
                 (addToast (str ''Connection request declined'') Success tid s)))"

definition delete_colleague_edge :: "jsstring \<Rightarrow> jsstring \<Rightarrow> database \<Rightarrow> database" where
  "delete_colleague_edge src tgt db =
     db\<lparr>member_connections :=
          filter (\<lambda>e. \<not> (mc_member_id e = src \<and> mc_connected_user_id e = tgt
                          \<and> mc_connection_type e = Colleague))
            (member_connections db)\<rparr>"

definition handleDisconnectMember ::
  "jsstring \<Rightarrow> jsstring \<Rightarrow> outcome \<Rightarrow> outcome \<Rightarrow> jsstring \<Rightarrow> database \<times> page
     \<Rightarrow> database \<times> page" where
  "handleDisconnectMember uid memberId o1 o2 tid st =
     (let db = fst st; s = snd st in
      if o1 = Thrown then (db, addToast (str ''Failed to disconnect'') Error tid s)
      else
        let db1 = (if o1 = Ok then delete_colleague_edge uid memberId db else db) in
        if o2 = Thrown then (db1, addToast (str ''Failed to disconnect'') Error tid s)
        else
          let db2 = (if o2 = Ok then delete_colleague_edge memberId uid db1 else db1) in
          if o1 = Ok \<or> o2 = Ok
          then (db2,
                setTimeout ReloadMembers 500
                  (addToast (str ''Disconnected'') Success tid
                     ((removeCachedMembers s)\<lparr>members :=
                         map (\<lambda>m. if m_id m = memberId then m\<lparr>m_connected := False\<rparr> else m)
                           (members s)\<rparr>)))
          else (db2, addToast (str ''Failed to disconnect'') Error tid s))"

text \<open>
  \<open>handleSendMessage\<close>: \<open>o1\<close> is the outcome of the insert, \<open>r\<close> that of the read made
  by \<open>loadMessages\<close>. The timestamp is the clock's value; past the range of \<open>Date\<close>,
  \<open>toISOString\<close> throws inside the \<open>try\<close>, before the insert is made.
\<close>

definition MAX_DATE_MS :: nat where
  "MAX_DATE_MS = 8640000000000000"

definition handleSendMessage ::
  "jsstring \<Rightarrow> outcome \<Rightarrow> outcome \<Rightarrow> jsstring \<Rightarrow> database \<times> page \<Rightarrow> database \<times> page" where
  "handleSendMessage uid o1 r tid st =
     (let db = fst st; s = snd st in
      case selectedConnection s of
        None \<Rightarrow> (db, s)
      | Some sel \<Rightarrow>
          if trim (messageInput s) = [] then (db, s)
          else if MAX_DATE_MS < clock s \<or> o1 = Thrown
          then (db, addToast (str ''Failed to send message'') Error tid s)
          else if o1 = Failed then (db, s)
          else
            let db1 = db\<lparr>messages_rel := messages_rel db @
                           [\<lparr>mr_id = next_id db, mr_sender_id = uid,
                             mr_recipient_id = cn_id sel, mr_content = messageInput s,
                             mr_timestamp = clock s, mr_read = False\<rparr>],
                         next_id := Suc (next_id db)\<rparr>
            in (db1,
                addToast (str ''Message sent'') Success tid
                  (loadMessages uid db1 r (s\<lparr>messageInput := []\<rparr>))))"

section \<open>Auxiliary notions and example data\<close>

text \<open>The system-wide colleague edges, as read by \<open>loadMembers\<close> for its counts.\<close>

definition colleague_edges :: "database \<Rightarrow> member_connection list" where
  "colleague_edges db = filter (\<lambda>e. mc_connection_type e = Colleague) (member_connections db)"

text \<open>
  The connection count of the specification: the colleague edges with \<open>x\<close> as source plus
  those with \<open>x\<close> as target.
\<close>

definition connection_count :: "database \<Rightarrow> jsstring \<Rightarrow> int" where
  "connection_count db x =
     int (length (filter (\<lambda>e. mc_member_id e = x) (colleague_edges db))
          + length (filter (\<lambda>e. mc_connected_user_id e = x) (colleague_edges db)))"

text \<open>
  An example store: the viewer \<open>u1\<close>, three creators and three other members. The viewer
  follows Alice through \<open>member_connections\<close> and Bob through \<open>media_page_follows\<close>.
\<close>

definition demo_profile :: "string \<Rightarrow> string \<Rightarrow> account_type \<Rightarrow> profile" where
  "demo_profile i n a =
     \<lparr>p_id = str i, p_name = str n, p_avatar_url = [], p_tier = str ''free'',
      p_followers = 0, p_bio = [], p_created_at = str ''2024-01-01'', p_account_type = a\<rparr>"

definition demo_edge :: "string \<Rightarrow> string \<Rightarrow> connection_type \<Rightarrow> member_connection" where
  "demo_edge a b k =
     \<lparr>mc_member_id = str a, mc_connected_user_id = str b, mc_connection_type = k,
      mc_status = str ''active''\<rparr>"

definition demo_db :: database where
  "demo_db =
     \<lparr>profiles =
        [demo_profile ''c1'' ''Alice'' CreatorAccount,
         demo_profile ''c2'' ''Bob'' CreatorAccount,
         demo_profile ''c3'' ''Cy'' CreatorAccount,
         demo_profile ''u1'' ''Uma'' MemberAccount,
         demo_profile ''m1'' ''Carol'' MemberAccount,
         demo_profile ''m2'' ''Dave'' MemberAccount,
         demo_profile ''m3'' ''Erin'' MemberAccount],
      member_connections =
        [demo_edge ''u1'' ''c1'' Follow,
         demo_edge ''m1'' ''u1'' Colleague,
         demo_edge ''u1'' ''m2'' Colleague,
         demo_edge ''m1'' ''m2'' Colleague],
      media_page_follows = [\<lparr>mf_follower_id = str ''u1'', mf_creator_name = str ''Bob''\<rparr>],
      connection_requests =
        [\<lparr>cr_id = 1, cr_sender_id = str ''m3'', cr_recipient_id = str ''u1'',
          cr_message = None, cr_status = Pending\<rparr>],
      messages_rel = [],
      next_id = 2\<rparr>"

definition demo_page :: page where
  "demo_page =
     \<lparr>creators = [], members = [], messages = [], creatorsLoaded = False,
      membersLoaded = False, selectedConnection = None, messageInput = [], toasts = [],
      pendingRequests = Map.empty, cache_creators = None, cache_members = None,
      storage_available = True, clock = 0, toast_timers = [], reload_timers = []\<rparr>"

text \<open>
  A variant of the example page in which a connection is selected and a draft is typed,
  and a creator list as \<open>loadCreators\<close> leaves it.
\<close>

definition demo_chat_page :: page where
  "demo_chat_page =
     demo_page\<lparr>selectedConnection :=
                  Some \<lparr>cn_id = str ''m2'', cn_name = str ''Dave'', cn_avatar_url = [],
                        cn_role = MemberAccount, cn_bio = [], cn_isFollowing = True\<rparr>,
                messageInput := str '' hi ''\<rparr>"

definition demo_mail_db :: database where
  "demo_mail_db =
     demo_db\<lparr>messages_rel :=
                [\<lparr>mr_id = 7, mr_sender_id = str ''m1'', mr_recipient_id = str ''u1'',
                  mr_content = str ''old'', mr_timestamp = 5, mr_read = False\<rparr>,
                 \<lparr>mr_id = 8, mr_sender_id = str ''m2'', mr_recipient_id = str ''u1'',
                  mr_content = str ''new'', mr_timestamp = 9, mr_read = False\<rparr>,
                 \<lparr>mr_id = 9, mr_sender_id = str ''m1'', mr_recipient_id = str ''m2'',
                  mr_content = str ''other'', mr_timestamp = 7, mr_read = False\<rparr>],
              next_id := 10\<rparr>"

definition demo_creator :: "string \<Rightarrow> string \<Rightarrow> bool \<Rightarrow> creator" where
  "demo_creator i n f = creator_of (demo_profile i n CreatorAccount) f"

definition demo_loaded_page :: page where
  "demo_loaded_page =
     demo_page\<lparr>creators := [demo_creator ''c1'' ''Alice'' True, demo_creator ''c2'' ''Bob'' True,
                              demo_creator ''c3'' ''Cy'' False]\<rparr>"

text \<open>
  The handler went from page \<open>s\<close> to page \<open>s'\<close> and surfaced a failure: the queue of \<open>s'\<close>
  is that of \<open>s\<close> with one error toast appended, carrying the identifier \<open>tid\<close>.
\<close>

definition error_toast_added :: "jsstring \<Rightarrow> page \<Rightarrow> page \<Rightarrow> bool" where
  "error_toast_added tid s s' \<longleftrightarrow>
     toasts s' = toasts s @
       [\<lparr>t_id = tid, t_type = Error, t_message = t_message (last (toasts s'))\<rparr>]"

text \<open>
  The life of the toast queue: toasts are added (by any handler, at the current time) and
  time passes.
\<close>

datatype toast_event = AddToast jsstring toast_type jsstring | Wait nat

fun toast_step :: "toast_event \<Rightarrow> page \<Rightarrow> page" where
  "toast_step (AddToast msg ty tid) s = addToast msg ty tid s"
| "toast_step (Wait d) s = elapse d s"

definition run_toasts :: "toast_event list \<Rightarrow> page \<Rightarrow> page" where
  "run_toasts evs s = fold toast_step evs s"

fun waited :: "toast_event list \<Rightarrow> nat" where
  "waited [] = 0"
| "waited (AddToast msg ty tid # evs) = waited evs"
| "waited (Wait d # evs) = d + waited evs"

fun added_ids :: "toast_event list \<Rightarrow> jsstring list" where
  "added_ids [] = []"
| "added_ids (AddToast msg ty tid # evs) = tid # added_ids evs"
| "added_ids (Wait d # evs) = added_ids evs"

text \<open>
  \<open>followCreator\<close> and then \<open>unfollowCreator\<close> on the same creator, all four gateway writes
  succeeding.
\<close>

definition follow_then_unfollow ::
  "jsstring \<Rightarrow> creator \<Rightarrow> jsstring \<Rightarrow> jsstring \<Rightarrow> database \<times> page \<Rightarrow> database \<times> page" where
  "follow_then_unfollow uid cr tid1 tid2 st =
     handleUnfollowCreator uid (c_id cr) Ok Ok tid2 (handleFollowCreator uid cr Ok Ok tid1 st)"

text \<open>
  The invariant of one toast \<open>x\<close> whose removal is due at \<open>due\<close>: before that time the
  toast is queued and its timer pending, and every pending timer with its identifier is
  due at the same time; from that time on neither the queue nor the timers hold its
  identifier.
\<close>

definition toast_scheduled :: "toast \<Rightarrow> nat \<Rightarrow> page \<Rightarrow> bool" where
  "toast_scheduled x due s \<longleftrightarrow>
     (if clock s < due
      then x \<in> set (toasts s) \<and> (due, t_id x) \<in> set (toast_timers s)
           \<and> (\<forall>p \<in> set (toast_timers s). snd p = t_id x \<longrightarrow> fst p = due)
      else t_id x \<notin> t_id ` set (toasts s) \<and> t_id x \<notin> snd ` set (toast_timers s))"

text \<open>Two pages that agree on the time and on every toast and timer not identified by \<open>i\<close>.\<close>

definition same_but :: "jsstring \<Rightarrow> page \<Rightarrow> page \<Rightarrow> bool" where
  "same_but i s1 s2 \<longleftrightarrow>
     clock s1 = clock s2
     \<and> filter (\<lambda>t. t_id t \<noteq> i) (toasts s1) = filter (\<lambda>t. t_id t \<noteq> i) (toasts s2)
     \<and> filter (\<lambda>p. snd p \<noteq> i) (toast_timers s1) = filter (\<lambda>p. snd p \<noteq> i) (toast_timers s2)"

section \<open>Properties of the reconciliation passes\<close>

lemma loadCreators_Ok:
  "creators (loadCreators uid db Ok Ok Ok tid s) =
     map (\<lambda>p. creator_of p
            (p_id p \<in> mc_connected_user_id `
               {e \<in> set (member_connections db).
                  mc_member_id e = uid \<and> mc_connection_type e = Follow}
             \<or> p_name p \<in> mf_creator_name `
               {f \<in> set (media_page_follows db). mf_follower_id f = uid}))
       (take 100 (filter (\<lambda>p. p_account_type p = CreatorAccount) (profiles db)))"
  by (simp add: loadCreators_def setCachedCreators_def Let_def)

text \<open>
  Claim C2. After a pass of \<open>loadCreators\<close> whose three reads return their rows, the
  loaded creators are the first 100 creator profiles, and a loaded creator is marked
  followed exactly when \<open>member_connections\<close> holds a follow edge from the current user
  to the creator's id, or \<open>media_page_follows\<close> holds an entry of the current user with
  the creator's name.
\<close>

theorem loadCreators_followed_iff:
  assumes "r1 = Ok" and "r2 = Ok" and "r3 = Ok"
  shows "map c_id (creators (loadCreators uid db r1 r2 r3 tid s)) =
           map p_id (take 100 (filter (\<lambda>p. p_account_type p = CreatorAccount) (profiles db)))
         \<and> (\<forall>c \<in> set (creators (loadCreators uid db r1 r2 r3 tid s)).
              c_followed c \<longleftrightarrow>
                (\<exists>e \<in> set (member_connections db).
                    mc_member_id e = uid \<and> mc_connection_type e = Follow
                    \<and> mc_connected_user_id e = c_id c)
                \<or> (\<exists>f \<in> set (media_page_follows db).
                      mf_follower_id f = uid \<and> mf_creator_name f = c_name c))"
proof -
  have ids: "map c_id (creators (loadCreators uid db Ok Ok Ok tid s)) =
      map p_id (take 100 (filter (\<lambda>p. p_account_type p = CreatorAccount) (profiles db)))"
    by (simp add: loadCreators_Ok creator_of_def o_def)
  have flags: "c_followed c \<longleftrightarrow>
                (\<exists>e \<in> set (member_connections db).
                    mc_member_id e = uid \<and> mc_connection_type e = Follow
                    \<and> mc_connected_user_id e = c_id c)
                \<or> (\<exists>f \<in> set (media_page_follows db).
                      mf_follower_id f = uid \<and> mf_creator_name f = c_name c)"
    if "c \<in> set (creators (loadCreators uid db Ok Ok Ok tid s))" for c
  proof -
    from that obtain p where c: "c = creator_of p
            (p_id p \<in> mc_connected_user_id `
               {e \<in> set (member_connections db).
                  mc_member_id e = uid \<and> mc_connection_type e = Follow}
             \<or> p_name p \<in> mf_creator_name `
               {f \<in> set (media_page_follows db). mf_follower_id f = uid})"
      unfolding loadCreators_Ok by auto
    show ?thesis
      unfolding c creator_of_def
      by (simp add: image_iff Bex_def) (intro arg_cong2[where f="(\<or>)"] ex_cong1; auto)
  qed
  from ids flags show ?thesis unfolding assms by blast
qed

theorem loadCreators_followed_iff_witness:
  "map c_id (creators (loadCreators (str ''u1'') demo_db Ok Ok Ok [] demo_page)) =
     [str ''c1'', str ''c2'', str ''c3'']
   \<and> map c_followed (creators (loadCreators (str ''u1'') demo_db Ok Ok Ok [] demo_page)) =
     [True, True, False]"
proof -
  let ?cs = "creators (loadCreators (str ''u1'') demo_db Ok Ok Ok [] demo_page)"
  note inst = loadCreators_followed_iff [OF refl refl refl, of "str ''u1''" demo_db "[]" demo_page]
  from inst have ids: "map c_id ?cs = [str ''c1'', str ''c2'', str ''c3'']"
    by (simp add: demo_db_def demo_profile_def)
  have names: "map c_name ?cs = [str ''Alice'', str ''Bob'', str ''Cy'']"
    by (simp add: loadCreators_Ok creator_of_def o_def demo_db_def demo_profile_def)
  from ids names obtain a b c where cs: "?cs = [a, b, c]"
    and a: "c_id a = str ''c1''" "c_name a = str ''Alice''"
    and b: "c_id b = str ''c2''" "c_name b = str ''Bob''"
    and c: "c_id c = str ''c3''" "c_name c = str ''Cy''"
    by (auto simp: map_eq_Cons_conv)
  from inst have flag: "c_followed x \<longleftrightarrow>
      (\<exists>e \<in> set (member_connections demo_db).
          mc_member_id e = str ''u1'' \<and> mc_connection_type e = Follow
          \<and> mc_connected_user_id e = c_id x)
      \<or> (\<exists>f \<in> set (media_page_follows demo_db).
            mf_follower_id f = str ''u1'' \<and> mf_creator_name f = c_name x)"
    if "x \<in> set ?cs" for x
    using that by blast
  have "c_followed a" "c_followed b" "\<not> c_followed c"
    using flag [of a] flag [of b] flag [of c] a b c
    unfolding cs by (simp_all add: demo_db_def demo_edge_def str_def)
  with ids show ?thesis unfolding cs by simp
qed

lemma fold_count_edge:
  "(case fold count_edge es m x of None \<Rightarrow> 0 | Some n \<Rightarrow> n) =
     (case m x of None \<Rightarrow> 0 | Some n \<Rightarrow> n)
     + length (filter (\<lambda>e. mc_member_id e = x) es)
     + length (filter (\<lambda>e. mc_connected_user_id e = x) es)"
proof (induction es arbitrary: m)
  case Nil
  show ?case by simp
next
  case (Cons e es)
  have step: "(case count_edge e m x of None \<Rightarrow> 0 | Some n \<Rightarrow> n) =
      (case m x of None \<Rightarrow> 0 | Some n \<Rightarrow> n)
      + (if mc_member_id e = x then 1 else 0)
      + (if mc_connected_user_id e = x then 1 else 0)"
    by (simp add: count_edge_def Let_def split: option.splits)
  show ?case
    by (simp add: Cons.IH step)
qed

lemma connectionCounts_eq:
  "(case connectionCounts es x of None \<Rightarrow> 0 | Some n \<Rightarrow> int n) =
     int (length (filter (\<lambda>e. mc_member_id e = x) es)
          + length (filter (\<lambda>e. mc_connected_user_id e = x) es))"
proof -
  have "(case connectionCounts es x of None \<Rightarrow> 0 | Some n \<Rightarrow> int n) =
        int (case connectionCounts es x of None \<Rightarrow> 0 | Some n \<Rightarrow> n)"
    by (simp split: option.splits)
  also have "\<dots> = int (length (filter (\<lambda>e. mc_member_id e = x) es)
          + length (filter (\<lambda>e. mc_connected_user_id e = x) es))"
    unfolding connectionCounts_def fold_count_edge by simp
  finally show ?thesis .
qed

lemma loadMembers_followers:
  assumes "r1 = Ok" "r2 \<noteq> Thrown" "r3 \<noteq> Thrown" "r4 = Ok" "r5 \<noteq> Thrown"
  shows "map (\<lambda>m. (m_id m, m_followers m)) (members (loadMembers uid db r1 r2 r3 r4 r5 s)) =
         map (\<lambda>p. (p_id p, Some (connection_count db (p_id p))))
          (take 50 (filter (\<lambda>p. p_account_type p = MemberAccount \<and> p_id p \<noteq> uid) (profiles db)))"
  using assms
  by (simp add: loadMembers_def setCachedMembers_def Let_def member_of_def o_def
      connectionCounts_eq colleague_edges_def connection_count_def)

lemma loadMembers_count_of:
  assumes "r1 = Ok" "r2 \<noteq> Thrown" "r3 \<noteq> Thrown" "r4 = Ok" "r5 \<noteq> Thrown"
    and "m \<in> set (members (loadMembers uid db r1 r2 r3 r4 r5 s))"
  shows "m_followers m = Some (connection_count db (m_id m))"
proof -
  let ?ms = "members (loadMembers uid db r1 r2 r3 r4 r5 s)"
  from assms(6) have "(m_id m, m_followers m) \<in> set (map (\<lambda>m. (m_id m, m_followers m)) ?ms)"
    by (simp add: image_iff) blast
  then have "(m_id m, m_followers m) \<in> set (map (\<lambda>p. (p_id p, Some (connection_count db (p_id p))))
          (take 50 (filter (\<lambda>p. p_account_type p = MemberAccount \<and> p_id p \<noteq> uid) (profiles db))))"
    by (simp only: loadMembers_followers [OF assms(1-5)])
  then show ?thesis by auto
qed

text \<open>
  Claim C3. After a pass of \<open>loadMembers\<close> that runs to its end and whose read of all
  colleague edges returns its rows, the count shown for every loaded member is the number
  of colleague edges of the whole store with the member as source plus the number with
  the member as target. The viewer does not occur in that number: a pass for any other
  viewer shows the same count for the same member.
\<close>

theorem loadMembers_connection_count:
  assumes "r1 = Ok" and "r2 \<noteq> Thrown" and "r3 \<noteq> Thrown" and "r4 = Ok" and "r5 \<noteq> Thrown"
    and "q1 = Ok" and "q2 \<noteq> Thrown" and "q3 \<noteq> Thrown" and "q4 = Ok" and "q5 \<noteq> Thrown"
  shows "map m_id (members (loadMembers uid db r1 r2 r3 r4 r5 s)) =
           map p_id (take 50 (filter (\<lambda>p. p_account_type p = MemberAccount \<and> p_id p \<noteq> uid)
                                (profiles db)))
         \<and> (\<forall>m \<in> set (members (loadMembers uid db r1 r2 r3 r4 r5 s)).
              m_followers m =
                Some (int (length (filter (\<lambda>e. mc_member_id e = m_id m) (colleague_edges db))
                         + length (filter (\<lambda>e. mc_connected_user_id e = m_id m)
                                     (colleague_edges db))))
              \<and> (\<forall>m' \<in> set (members (loadMembers uid' db q1 q2 q3 q4 q5 s')).
                    m_id m' = m_id m \<longrightarrow> m_followers m' = m_followers m))"
proof -
  let ?ms = "members (loadMembers uid db r1 r2 r3 r4 r5 s)"
  have "map fst (map (\<lambda>m. (m_id m, m_followers m)) ?ms) =
        map fst (map (\<lambda>p. (p_id p, Some (connection_count db (p_id p))))
          (take 50 (filter (\<lambda>p. p_account_type p = MemberAccount \<and> p_id p \<noteq> uid) (profiles db))))"
    by (simp only: loadMembers_followers [OF assms(1-5)])
  then have ids: "map m_id ?ms =
      map p_id (take 50 (filter (\<lambda>p. p_account_type p = MemberAccount \<and> p_id p \<noteq> uid)
                                (profiles db)))"
    by (simp add: o_def)
  have cnt: "m_followers m = Some (connection_count db (m_id m))" if "m \<in> set ?ms" for m
    using loadMembers_count_of [OF assms(1-5) that] .
  have cnt': "m_followers m' = Some (connection_count db (m_id m'))"
    if "m' \<in> set (members (loadMembers uid' db q1 q2 q3 q4 q5 s'))" for m'
    using loadMembers_count_of [OF assms(6-10) that] .
  from ids cnt cnt' show ?thesis
    unfolding connection_count_def by simp
qed

theorem loadMembers_connection_count_witness:
  "map m_id (members (loadMembers (str ''u1'') demo_db Ok Ok Failed Ok Ok demo_page)) =
     [str ''m1'', str ''m2'', str ''m3'']
   \<and> map m_followers (members (loadMembers (str ''u1'') demo_db Ok Ok Failed Ok Ok demo_page)) =
     [Some 2, Some 2, Some 0]"
proof -
  let ?ms = "members (loadMembers (str ''u1'') demo_db Ok Ok Failed Ok Ok demo_page)"
  have ok: "Ok \<noteq> Thrown" and failed: "Failed \<noteq> Thrown" by simp_all
  note inst = loadMembers_connection_count [OF refl ok failed refl ok refl ok ok refl ok,
      of "str ''u1''" demo_db demo_page "str ''m3''" demo_page]
  from inst have ids: "map m_id ?ms = [str ''m1'', str ''m2'', str ''m3'']"
    by (simp add: demo_db_def demo_profile_def str_def)
  then obtain a b c where ms: "?ms = [a, b, c]"
    and a: "m_id a = str ''m1''" and b: "m_id b = str ''m2''" and c: "m_id c = str ''m3''"
    by (auto simp: map_eq_Cons_conv)
  from inst have cnt: "m_followers x =
      Some (int (length (filter (\<lambda>e. mc_member_id e = m_id x) (colleague_edges demo_db))
               + length (filter (\<lambda>e. mc_connected_user_id e = m_id x)
                           (colleague_edges demo_db))))"
    if "x \<in> set ?ms" for x
    using that by blast
  have "m_followers a = Some 2" "m_followers b = Some 2" "m_followers c = Some 0"
    using cnt [of a] cnt [of b] cnt [of c] a b c
    unfolding ms by (simp_all add: colleague_edges_def demo_db_def demo_edge_def str_def)
  with ids show ?thesis unfolding ms by simp
qed

section \<open>What reaches the local cache\<close>

text \<open>
  Claim C1 as stated fails. The snapshot of the creators that \<open>loadCreators\<close> stores is the
  list it displays, so the entries for Alice and Bob are cached with \<open>followed = true\<close>.
  The callback of the \<open>profiles\<close> subscription stores the members as displayed, so after
  one pass and one profile update the cached members carry \<open>connected = true\<close>.
\<close>

theorem cache_keeps_derived_flags:
  "map_option (map c_followed)
     (cache_creators (loadCreators (str ''u1'') demo_db Ok Ok Ok [] demo_page)) =
     Some [True, True, False]
   \<and> map_option (map m_connected)
       (cache_members (profilesSubscription (str ''m1'') 7
          (loadMembers (str ''u1'') demo_db Ok Ok Ok Ok Ok demo_page))) =
     Some [True, True, False]"
  by (simp add: loadCreators_def loadMembers_def profilesSubscription_def
      setCachedCreators_def setCachedMembers_def demo_db_def demo_page_def
      demo_profile_def demo_edge_def creator_of_def member_of_def str_def Let_def)

lemma loadMembers_cache:
  "cache_members (loadMembers uid db r1 r2 r3 r4 r5 s) =
     (if storage_available s \<and> r1 = Ok \<and> r2 \<noteq> Thrown \<and> r3 \<noteq> Thrown \<and> r4 \<noteq> Thrown
         \<and> r5 \<noteq> Thrown
      then Some (map (\<lambda>p. member_of p None False None)
                   (take 50 (filter (\<lambda>p. p_account_type p = MemberAccount \<and> p_id p \<noteq> uid)
                               (profiles db))))
      else cache_members s)"
  by (simp add: loadMembers_def setCachedMembers_def Let_def)

lemma loadCreators_cache:
  "cache_creators (loadCreators uid db r1 r2 r3 tid s) =
     (if storage_available s \<and> r1 = Ok \<and> r2 \<noteq> Thrown \<and> r3 \<noteq> Thrown
      then Some (creators (loadCreators uid db r1 r2 r3 tid s))
      else cache_creators s)"
  by (cases r1; cases r2; cases r3)
     (simp_all add: loadCreators_def setCachedCreators_def addToast_def Let_def)

text \<open>
  Claim C1, amended. A pass of \<open>loadMembers\<close> either leaves the cached members as they
  were (the profile read failed, a read threw, or the storage is unavailable) or replaces
  them by the base fields of the profiles read, every entry with \<open>connected = false\<close>, no
  connection count and no request status. A pass of \<open>loadCreators\<close> either leaves the
  cached creators as they were or replaces them by the list it displays, \<open>followed\<close> flags
  included, and so does the callback of the \<open>profiles\<close> subscription.
\<close>

theorem cache_written_by_passes:
  "cache_members (loadMembers uid db r1 r2 r3 r4 r5 s) =
     (if storage_available s \<and> r1 = Ok \<and> r2 \<noteq> Thrown \<and> r3 \<noteq> Thrown \<and> r4 \<noteq> Thrown
         \<and> r5 \<noteq> Thrown
      then Some (map (\<lambda>p. member_of p None False None)
                   (take 50 (filter (\<lambda>p. p_account_type p = MemberAccount \<and> p_id p \<noteq> uid)
                               (profiles db))))
      else cache_members s)
   \<and> (\<forall>m \<in> set (map (\<lambda>p. member_of p None False None)
                   (take 50 (filter (\<lambda>p. p_account_type p = MemberAccount \<and> p_id p \<noteq> uid)
                               (profiles db)))).
         \<not> m_connected m \<and> m_followers m = None \<and> m_requestStatus m = None)
   \<and> cache_creators (loadCreators uid db q1 q2 q3 tid s) =
     (if storage_available s \<and> q1 = Ok \<and> q2 \<noteq> Thrown \<and> q3 \<noteq> Thrown
      then Some (creators (loadCreators uid db q1 q2 q3 tid s))
      else cache_creators s)
   \<and> cache_creators (profilesSubscription pid n s) =
     (if storage_available s then Some (creators (profilesSubscription pid n s))
      else cache_creators s)"
proof -
  have "\<not> m_connected m \<and> m_followers m = None \<and> m_requestStatus m = None"
    if "m \<in> set (map (\<lambda>p. member_of p None False None) ps)" for m ps
    using that by (auto simp: member_of_def)
  moreover have "cache_creators (profilesSubscription pid n s) =
     (if storage_available s then Some (creators (profilesSubscription pid n s))
      else cache_creators s)"
    by (simp add: profilesSubscription_def setCachedCreators_def setCachedMembers_def Let_def)
  ultimately show ?thesis
    unfolding loadMembers_cache loadCreators_cache by blast
qed


theorem cache_written_by_passes_witness:
  "map_option (map (\<lambda>m. (m_id m, m_connected m, m_followers m, m_requestStatus m)))
     (cache_members (loadMembers (str ''u1'') demo_db Ok Ok Ok Ok Ok demo_page)) =
     Some [(str ''m1'', False, None, None), (str ''m2'', False, None, None),
           (str ''m3'', False, None, None)]
   \<and> cache_creators (loadCreators (str ''u1'') demo_db Ok Ok Ok [] demo_page) =
     Some (creators (loadCreators (str ''u1'') demo_db Ok Ok Ok [] demo_page))"
  using cache_written_by_passes [of "str ''u1''" demo_db Ok Ok Ok Ok Ok demo_page Ok Ok Ok "[]"]
  by (simp add: demo_db_def demo_page_def demo_profile_def member_of_def str_def)

section \<open>Which failures reach the notification dispatcher\<close>

text \<open>
  Claim C4 as stated fails. Accepting a request when the update or the lookup returns a
  failure, declining when the update returns a failure, and sending a message whose insert
  returns a failure add no toast at all; a disconnect one of whose two deletes returns a
  failure reports success.
\<close>

theorem failure_not_surfaced:
  "toasts (snd (handleAcceptConnectionRequest (str ''u1'') (str ''m3'') Ok Failed Ok (str ''t1'')
             (demo_db, demo_page))) = []
   \<and> toasts (snd (handleAcceptConnectionRequest (str ''u1'') (str ''m3'') Failed Ok Ok (str ''t1'')
             (demo_db, demo_page))) = []
   \<and> toasts (snd (handleDeclineConnectionRequest (str ''u1'') (str ''m3'') Ok Failed (str ''t1'')
             (demo_db, demo_page))) = []
   \<and> toasts (snd (handleSendMessage (str ''u1'') Failed Ok (str ''t1'')
             (demo_db, demo_chat_page))) = []
   \<and> toasts (snd (handleDisconnectMember (str ''u1'') (str ''m2'') Ok Failed (str ''t1'')
             (demo_db, demo_page))) =
       [\<lparr>t_id = str ''t1'', t_type = Success, t_message = str ''Disconnected''\<rparr>]"
  by (simp add: handleAcceptConnectionRequest_def handleDeclineConnectionRequest_def
      handleSendMessage_def handleDisconnectMember_def pending_requests_from_def
      delete_colleague_edge_def removeCachedMembers_def addToast_def setTimeout_def
      demo_db_def demo_page_def demo_chat_page_def trim_def js_whitespace_def str_def Let_def)

lemma error_toast_added_addToast [simp]:
  "error_toast_added tid s (addToast msg Error tid s)"
  by (simp add: error_toast_added_def addToast_def)

lemma follow_failure_surfaced:
  "\<not> (o1 = Ok \<and> o2 = Ok) \<Longrightarrow>
     error_toast_added tid s (snd (handleFollowCreator uid cr o1 o2 tid (db, s)))"
  by (cases o1; cases o2) (simp_all add: handleFollowCreator_def Let_def)

lemma unfollow_failure_surfaced:
  "\<not> (o1 = Ok \<and> o2 = Ok) \<Longrightarrow>
     error_toast_added tid s (snd (handleUnfollowCreator uid creatorId o1 o2 tid (db, s)))"
  by (cases o1; cases o2) (simp_all add: handleUnfollowCreator_def Let_def split: option.splits)

lemma connect_failure_surfaced:
  "o1 \<noteq> Ok \<Longrightarrow> error_toast_added tid s (snd (handleConnectMember uid mb o1 tid (db, s)))"
  by (cases o1) (simp_all add: handleConnectMember_def Let_def)

lemma disconnect_failure_surfaced:
  "o1 = Thrown \<or> o2 = Thrown \<or> (o1 = Failed \<and> o2 = Failed) \<Longrightarrow>
     error_toast_added tid s (snd (handleDisconnectMember uid memberId o1 o2 tid (db, s)))"
  by (cases o1; cases o2) (simp_all add: handleDisconnectMember_def Let_def)

lemma accept_throw_surfaced:
  "o1 = Thrown \<or> (o1 = Ok \<and> pending_requests_from memberId uid db \<noteq> []
      \<and> (o2 = Thrown \<or> (o2 = Ok \<and> o3 = Thrown))) \<Longrightarrow>
     error_toast_added tid s
       (snd (handleAcceptConnectionRequest uid memberId o1 o2 o3 tid (db, s)))"
  by (cases o1; cases o2; cases o3)
     (simp_all add: handleAcceptConnectionRequest_def Let_def split: list.splits)

lemma decline_throw_surfaced:
  "o1 = Thrown \<or> (o1 = Ok \<and> pending_requests_from memberId uid db \<noteq> [] \<and> o2 = Thrown) \<Longrightarrow>
     error_toast_added tid s
       (snd (handleDeclineConnectionRequest uid memberId o1 o2 tid (db, s)))"
  by (cases o1; cases o2)
     (simp_all add: handleDeclineConnectionRequest_def Let_def split: list.splits)

lemma send_throw_surfaced:
  "selectedConnection s \<noteq> None \<Longrightarrow> trim (messageInput s) \<noteq> [] \<Longrightarrow> o1 = Thrown \<Longrightarrow>
     error_toast_added tid s (snd (handleSendMessage uid o1 r tid (db, s)))"
  by (auto simp: handleSendMessage_def Let_def split: option.splits)

text \<open>
  Claim C4, amended. \<open>handleFollowCreator\<close>, \<open>handleUnfollowCreator\<close> and
  \<open>handleConnectMember\<close> append an error toast whenever one of their gateway writes
  returns a failure or throws. \<open>handleDisconnectMember\<close> appends one when both deletes
  return a failure or one of them throws. \<open>handleAcceptConnectionRequest\<close>,
  \<open>handleDeclineConnectionRequest\<close> and \<open>handleSendMessage\<close> append one when a gateway
  call they make throws.
\<close>

theorem failures_surfaced:
  "(\<not> (o1 = Ok \<and> o2 = Ok) \<longrightarrow>
      error_toast_added tid s (snd (handleFollowCreator uid cr o1 o2 tid (db, s))))
   \<and> (\<not> (o1 = Ok \<and> o2 = Ok) \<longrightarrow>
      error_toast_added tid s (snd (handleUnfollowCreator uid creatorId o1 o2 tid (db, s))))
   \<and> (o1 \<noteq> Ok \<longrightarrow>
      error_toast_added tid s (snd (handleConnectMember uid mb o1 tid (db, s))))
   \<and> (o1 = Thrown \<or> o2 = Thrown \<or> (o1 = Failed \<and> o2 = Failed) \<longrightarrow>
      error_toast_added tid s (snd (handleDisconnectMember uid memberId o1 o2 tid (db, s))))
   \<and> (o1 = Thrown \<or> (o1 = Ok \<and> pending_requests_from memberId uid db \<noteq> []
          \<and> (o2 = Thrown \<or> (o2 = Ok \<and> o3 = Thrown))) \<longrightarrow>
      error_toast_added tid s
        (snd (handleAcceptConnectionRequest uid memberId o1 o2 o3 tid (db, s))))
   \<and> (o1 = Thrown \<or> (o1 = Ok \<and> pending_requests_from memberId uid db \<noteq> [] \<and> o2 = Thrown) \<longrightarrow>
      error_toast_added tid s
        (snd (handleDeclineConnectionRequest uid memberId o1 o2 tid (db, s))))
   \<and> (selectedConnection s \<noteq> None \<and> trim (messageInput s) \<noteq> [] \<and> o1 = Thrown \<longrightarrow>
      error_toast_added tid s (snd (handleSendMessage uid o1 r tid (db, s))))"
  using follow_failure_surfaced [of o1 o2 tid s uid cr db]
    unfollow_failure_surfaced [of o1 o2 tid s uid creatorId db]
    connect_failure_surfaced [of o1 tid s uid mb db]
    disconnect_failure_surfaced [of o1 o2 tid s uid memberId db]
    accept_throw_surfaced [of o1 memberId uid db o2 o3 tid s]
    decline_throw_surfaced [of o1 memberId uid db o2 tid s]
    send_throw_surfaced [of s o1 tid uid r db]
  by blast


lemma demo_pending: "pending_requests_from (str ''m3'') (str ''u1'') demo_db \<noteq> []"
  by (simp add: pending_requests_from_def demo_db_def str_def)

lemma demo_draft:
  "selectedConnection demo_chat_page \<noteq> None \<and> trim (messageInput demo_chat_page) \<noteq> []"
  by (simp add: demo_chat_page_def demo_page_def trim_def js_whitespace_def str_def)

theorem failures_surfaced_witness:
  "error_toast_added (str ''t1'') demo_page
     (snd (handleFollowCreator (str ''u1'') (demo_creator ''c3'' ''Cy'' False) Failed Ok
        (str ''t1'') (demo_db, demo_page)))
   \<and> error_toast_added (str ''t1'') demo_page
     (snd (handleUnfollowCreator (str ''u1'') (str ''c1'') Failed Ok (str ''t1'')
        (demo_db, demo_page)))
   \<and> error_toast_added (str ''t1'') demo_page
     (snd (handleConnectMember (str ''u1'')
        (member_of (demo_profile ''m3'' ''Erin'' MemberAccount) None False None) Failed
        (str ''t1'') (demo_db, demo_page)))
   \<and> error_toast_added (str ''t1'') demo_page
     (snd (handleDisconnectMember (str ''u1'') (str ''m2'') Failed Failed (str ''t1'')
        (demo_db, demo_page)))
   \<and> error_toast_added (str ''t1'') demo_page
     (snd (handleAcceptConnectionRequest (str ''u1'') (str ''m3'') Ok Ok Thrown (str ''t1'')
        (demo_db, demo_page)))
   \<and> error_toast_added (str ''t1'') demo_page
     (snd (handleDeclineConnectionRequest (str ''u1'') (str ''m3'') Ok Thrown (str ''t1'')
        (demo_db, demo_page)))
   \<and> error_toast_added (str ''t1'') demo_chat_page
     (snd (handleSendMessage (str ''u1'') Thrown Ok (str ''t1'') (demo_db, demo_chat_page)))"
  using failures_surfaced [where ?o1.0 = Failed and ?o2.0 = Ok and tid = "str ''t1''"
        and s = demo_page and uid = "str ''u1''" and cr = "demo_creator ''c3'' ''Cy'' False"
        and db = demo_db and creatorId = "str ''c1''"
        and mb = "member_of (demo_profile ''m3'' ''Erin'' MemberAccount) None False None"]
    failures_surfaced [where ?o1.0 = Failed and ?o2.0 = Failed and tid = "str ''t1''"
        and s = demo_page and uid = "str ''u1''" and db = demo_db and memberId = "str ''m2''"]
    failures_surfaced [where ?o1.0 = Ok and ?o2.0 = Ok and ?o3.0 = Thrown and tid = "str ''t1''"
        and s = demo_page and uid = "str ''u1''" and db = demo_db and memberId = "str ''m3''"]
    failures_surfaced [where ?o1.0 = Ok and ?o2.0 = Thrown and tid = "str ''t1''"
        and s = demo_page and uid = "str ''u1''" and db = demo_db and memberId = "str ''m3''"]
    failures_surfaced [where ?o1.0 = Thrown and tid = "str ''t1''" and s = demo_chat_page
        and uid = "str ''u1''" and db = demo_db and r = Ok]
    demo_pending demo_draft
  by simp

section \<open>Connection requests\<close>

lemma update_request_status_distinct:
  assumes "distinct (map cr_id (connection_requests db))" and "q \<in> set (connection_requests db)"
  shows "connection_requests (update_request_status (cr_id q) st db) =
           map (\<lambda>x. if x = q then q\<lparr>cr_status := st\<rparr> else x) (connection_requests db)"
proof -
  have "cr_id x = cr_id q \<longleftrightarrow> x = q" if "x \<in> set (connection_requests db)" for x
    using that assms by (auto simp: distinct_map inj_on_def)
  then show ?thesis
    by (auto simp: update_request_status_def)
qed

text \<open>
  Claim C5. \<open>handleAcceptConnectionRequest\<close>, when its lookup returns: if there is no
  pending request from \<open>memberId\<close> to the current user, nothing changes, neither in the
  store nor on the page (no toast either). Otherwise, with \<open>q\<close> the first such request:
  when the update and the insert succeed, the store is the old one with \<open>q\<close>'s status set
  to accepted and exactly one edge appended, from \<open>memberId\<close> to the current user, of
  kind colleague; when the update succeeds and the insert does not, only the status has
  changed; when the update does not succeed, nothing has changed, so no edge is inserted
  without a successful update. With distinct request identifiers the update changes
  \<open>q\<close> alone.
\<close>

theorem handleAcceptConnectionRequest_spec:
  assumes "o1 = Ok"
  shows "(pending_requests_from memberId uid db = [] \<longrightarrow>
            handleAcceptConnectionRequest uid memberId o1 o2 o3 tid (db, s) = (db, s))
         \<and> (\<forall>q qs. pending_requests_from memberId uid db = q # qs \<longrightarrow>
               (o2 = Ok \<and> o3 = Ok \<longrightarrow>
                  fst (handleAcceptConnectionRequest uid memberId o1 o2 o3 tid (db, s)) =
                    (update_request_status (cr_id q) Accepted db)
                      \<lparr>member_connections := member_connections db @
                         [\<lparr>mc_member_id = memberId, mc_connected_user_id = uid,
                           mc_connection_type = Colleague, mc_status = str ''active''\<rparr>]\<rparr>)
               \<and> (o2 = Ok \<and> o3 \<noteq> Ok \<longrightarrow>
                  fst (handleAcceptConnectionRequest uid memberId o1 o2 o3 tid (db, s)) =
                    update_request_status (cr_id q) Accepted db)
               \<and> (o2 \<noteq> Ok \<longrightarrow>
                  fst (handleAcceptConnectionRequest uid memberId o1 o2 o3 tid (db, s)) = db)
               \<and> (distinct (map cr_id (connection_requests db)) \<longrightarrow>
                  connection_requests (update_request_status (cr_id q) Accepted db) =
                    map (\<lambda>x. if x = q then q\<lparr>cr_status := Accepted\<rparr> else x)
                      (connection_requests db)))"
proof -
  have none: "handleAcceptConnectionRequest uid memberId Ok o2 o3 tid (db, s) = (db, s)"
    if "pending_requests_from memberId uid db = []"
    using that by (simp add: handleAcceptConnectionRequest_def)
  have some: "(o2 = Ok \<and> o3 = Ok \<longrightarrow>
                  fst (handleAcceptConnectionRequest uid memberId Ok o2 o3 tid (db, s)) =
                    (update_request_status (cr_id q) Accepted db)
                      \<lparr>member_connections := member_connections db @
                         [\<lparr>mc_member_id = memberId, mc_connected_user_id = uid,
                           mc_connection_type = Colleague, mc_status = str ''active''\<rparr>]\<rparr>)
               \<and> (o2 = Ok \<and> o3 \<noteq> Ok \<longrightarrow>
                  fst (handleAcceptConnectionRequest uid memberId Ok o2 o3 tid (db, s)) =
                    update_request_status (cr_id q) Accepted db)
               \<and> (o2 \<noteq> Ok \<longrightarrow>
                  fst (handleAcceptConnectionRequest uid memberId Ok o2 o3 tid (db, s)) = db)"
    if "pending_requests_from memberId uid db = q # qs" for q qs
    using that
    by (cases o2; cases o3)
       (simp_all add: handleAcceptConnectionRequest_def Let_def update_request_status_def)
  have upd: "connection_requests (update_request_status (cr_id q) Accepted db) =
                    map (\<lambda>x. if x = q then q\<lparr>cr_status := Accepted\<rparr> else x)
                      (connection_requests db)"
    if "pending_requests_from memberId uid db = q # qs"
      and "distinct (map cr_id (connection_requests db))" for q qs
  proof -
    have "q \<in> set (pending_requests_from memberId uid db)"
      unfolding that(1) by simp
    then have "q \<in> set (connection_requests db)"
      by (simp add: pending_requests_from_def)
    with that(2) show ?thesis
      by (rule update_request_status_distinct)
  qed
  from none some upd show ?thesis
    unfolding assms by blast
qed


lemma demo_pending_m3:
  "pending_requests_from (str ''m3'') (str ''u1'') demo_db =
     [\<lparr>cr_id = 1, cr_sender_id = str ''m3'', cr_recipient_id = str ''u1'',
       cr_message = None, cr_status = Pending\<rparr>]"
  by (simp add: pending_requests_from_def demo_db_def str_def)

lemma demo_pending_m1: "pending_requests_from (str ''m1'') (str ''u1'') demo_db = []"
  by (simp add: pending_requests_from_def demo_db_def str_def)

theorem handleAcceptConnectionRequest_spec_witness:
  "handleAcceptConnectionRequest (str ''u1'') (str ''m1'') Ok Ok Ok (str ''t1'')
       (demo_db, demo_page) = (demo_db, demo_page)
   \<and> member_connections
       (fst (handleAcceptConnectionRequest (str ''u1'') (str ''m3'') Ok Ok Ok (str ''t1'')
               (demo_db, demo_page))) =
     member_connections demo_db @ [demo_edge ''m3'' ''u1'' Colleague]
   \<and> map cr_status (connection_requests
       (fst (handleAcceptConnectionRequest (str ''u1'') (str ''m3'') Ok Ok Ok (str ''t1'')
               (demo_db, demo_page)))) = [Accepted]
   \<and> fst (handleAcceptConnectionRequest (str ''u1'') (str ''m3'') Ok Failed Ok (str ''t1'')
               (demo_db, demo_page)) = demo_db"
proof -
  note a = handleAcceptConnectionRequest_spec [OF refl, of "str ''m1''" "str ''u1''" demo_db
      Ok Ok "str ''t1''" demo_page]
  note b = handleAcceptConnectionRequest_spec [OF refl, of "str ''m3''" "str ''u1''" demo_db
      Ok Ok "str ''t1''" demo_page]
  note c = handleAcceptConnectionRequest_spec [OF refl, of "str ''m3''" "str ''u1''" demo_db
      Failed Ok "str ''t1''" demo_page]
  have 1: "handleAcceptConnectionRequest (str ''u1'') (str ''m1'') Ok Ok Ok (str ''t1'')
       (demo_db, demo_page) = (demo_db, demo_page)"
    using a demo_pending_m1 by blast
  have 2: "fst (handleAcceptConnectionRequest (str ''u1'') (str ''m3'') Ok Ok Ok (str ''t1'')
               (demo_db, demo_page)) =
      (update_request_status 1 Accepted demo_db)
         \<lparr>member_connections := member_connections demo_db @
            [\<lparr>mc_member_id = str ''m3'', mc_connected_user_id = str ''u1'',
              mc_connection_type = Colleague, mc_status = str ''active''\<rparr>]\<rparr>"
    using b demo_pending_m3 by simp
  have 3: "fst (handleAcceptConnectionRequest (str ''u1'') (str ''m3'') Ok Failed Ok (str ''t1'')
               (demo_db, demo_page)) = demo_db"
    using c demo_pending_m3 by simp
  show ?thesis
    unfolding 1 2 3
    by (simp add: update_request_status_def demo_edge_def) (simp add: demo_db_def)
qed

section \<open>Following and unfollowing\<close>

lemma find_distinct_key:
  assumes "distinct (map f xs)" and "c \<in> set xs"
  shows "find (\<lambda>x. f x = f c) xs = Some c"
  using assms
proof (induction xs)
  case Nil
  then show ?case by simp
next
  case (Cons x xs)
  then show ?case by (cases "x = c") (auto simp: image_iff)
qed

lemma find_map_followed:
  assumes "find (\<lambda>x. c_id x = k) xs = Some c"
  shows "\<exists>c'. find (\<lambda>x. c_id x = k) (map (\<lambda>x. if c_id x = j then x\<lparr>c_followed := b\<rparr> else x) xs)
            = Some c' \<and> c_name c' = c_name c"
  using assms
proof (induction xs)
  case Nil
  then show ?case by simp
next
  case (Cons x xs)
  then show ?case by (cases "c_id x = k") auto
qed

lemma follow_then_unfollow_eq:
  assumes "cr \<in> set (creators s)" and "distinct (map c_id (creators s))"
  shows "fst (follow_then_unfollow uid cr tid1 tid2 (db, s)) =
           db\<lparr>member_connections :=
                filter (\<lambda>e. \<not> (mc_member_id e = uid \<and> mc_connected_user_id e = c_id cr))
                  (member_connections db),
              media_page_follows :=
                filter (\<lambda>f. \<not> (mf_follower_id f = uid \<and> mf_creator_name f = c_name cr))
                  (media_page_follows db)\<rparr>"
    and "creators (snd (follow_then_unfollow uid cr tid1 tid2 (db, s))) =
           map (\<lambda>c. if c_id c = c_id cr then c\<lparr>c_followed := False\<rparr> else c) (creators s)"
proof -
  from assms have "find (\<lambda>x. c_id x = c_id cr) (creators s) = Some cr"
    by (simp add: find_distinct_key)
  then obtain c' where c': "find (\<lambda>x. c_id x = c_id cr)
        (map (\<lambda>x. if c_id x = c_id cr then x\<lparr>c_followed := True\<rparr> else x) (creators s)) = Some c'"
      "c_name c' = c_name cr"
    using find_map_followed by blast
  show "fst (follow_then_unfollow uid cr tid1 tid2 (db, s)) =
           db\<lparr>member_connections :=
                filter (\<lambda>e. \<not> (mc_member_id e = uid \<and> mc_connected_user_id e = c_id cr))
                  (member_connections db),
              media_page_follows :=
                filter (\<lambda>f. \<not> (mf_follower_id f = uid \<and> mf_creator_name f = c_name cr))
                  (media_page_follows db)\<rparr>"
    by (simp add: follow_then_unfollow_def handleFollowCreator_def handleUnfollowCreator_def
        Let_def addToast_def setTimeout_def c')
  show "creators (snd (follow_then_unfollow uid cr tid1 tid2 (db, s))) =
           map (\<lambda>c. if c_id c = c_id cr then c\<lparr>c_followed := False\<rparr> else c) (creators s)"
    by (simp add: follow_then_unfollow_def handleFollowCreator_def handleUnfollowCreator_def
        Let_def addToast_def setTimeout_def c' o_def)
qed


text \<open>
  Claim C6. Let \<open>cr\<close> be a creator of the loaded list, whose identifiers are distinct.
  After \<open>followCreator cr\<close> and \<open>unfollowCreator (id cr)\<close>, both succeeding, every entry
  of the list with \<open>cr\<close>'s id has \<open>followed = false\<close>, \<open>member_connections\<close> holds no edge
  from the current user to \<open>cr\<close>'s id, \<open>media_page_follows\<close> holds no entry of the
  current user with \<open>cr\<close>'s name, and the next pass of \<open>loadCreators\<close> shows \<open>cr\<close> as not
  followed.
\<close>

theorem follow_unfollow_round_trip:
  assumes "cr \<in> set (creators s)" and "distinct (map c_id (creators s))"
  shows "(\<forall>c \<in> set (creators (snd (follow_then_unfollow uid cr tid1 tid2 (db, s)))).
            c_id c = c_id cr \<longrightarrow> \<not> c_followed c)
         \<and> (\<forall>e \<in> set (member_connections (fst (follow_then_unfollow uid cr tid1 tid2 (db, s)))).
               \<not> (mc_member_id e = uid \<and> mc_connected_user_id e = c_id cr))
         \<and> (\<forall>f \<in> set (media_page_follows (fst (follow_then_unfollow uid cr tid1 tid2 (db, s)))).
               \<not> (mf_follower_id f = uid \<and> mf_creator_name f = c_name cr))
         \<and> (\<forall>c \<in> set (creators (loadCreators uid
                 (fst (follow_then_unfollow uid cr tid1 tid2 (db, s))) Ok Ok Ok tid3
                 (snd (follow_then_unfollow uid cr tid1 tid2 (db, s))))).
               c_id c = c_id cr \<and> c_name c = c_name cr \<longrightarrow> \<not> c_followed c)"
proof -
  let ?st = "follow_then_unfollow uid cr tid1 tid2 (db, s)"
  note db' = follow_then_unfollow_eq(1) [OF assms, of uid tid1 tid2 db]
  note cs' = follow_then_unfollow_eq(2) [OF assms, of uid tid1 tid2 db]
  have local: "\<not> c_followed c" if "c \<in> set (creators (snd ?st))" "c_id c = c_id cr" for c
    using that unfolding cs' by auto
  have edges: "\<not> (mc_member_id e = uid \<and> mc_connected_user_id e = c_id cr)"
    if "e \<in> set (member_connections (fst ?st))" for e
    using that unfolding db' by simp
  have legacy: "\<not> (mf_follower_id f = uid \<and> mf_creator_name f = c_name cr)"
    if "f \<in> set (media_page_follows (fst ?st))" for f
    using that unfolding db' by simp
  have reload: "\<not> c_followed c"
    if "c \<in> set (creators (loadCreators uid (fst ?st) Ok Ok Ok tid3 (snd ?st)))"
      and "c_id c = c_id cr" and "c_name c = c_name cr" for c
  proof -
    from that(1) obtain p where c: "c = creator_of p
            (p_id p \<in> mc_connected_user_id `
               {e \<in> set (member_connections (fst ?st)).
                  mc_member_id e = uid \<and> mc_connection_type e = Follow}
             \<or> p_name p \<in> mf_creator_name `
               {f \<in> set (media_page_follows (fst ?st)). mf_follower_id f = uid})"
      unfolding loadCreators_Ok by auto
    from that(2,3) have p: "p_id p = c_id cr" "p_name p = c_name cr"
      unfolding c by (simp_all add: creator_of_def)
    have "p_id p \<notin> mc_connected_user_id `
               {e \<in> set (member_connections (fst ?st)).
                  mc_member_id e = uid \<and> mc_connection_type e = Follow}"
    proof
      assume "p_id p \<in> mc_connected_user_id `
               {e \<in> set (member_connections (fst ?st)).
                  mc_member_id e = uid \<and> mc_connection_type e = Follow}"
      then obtain e where "e \<in> set (member_connections (fst ?st))"
        and "mc_member_id e = uid" and "mc_connected_user_id e = p_id p"
        by (auto simp: image_iff)
      with edges [of e] p(1) show False by simp
    qed
    moreover have "p_name p \<notin> mf_creator_name `
               {f \<in> set (media_page_follows (fst ?st)). mf_follower_id f = uid}"
    proof
      assume "p_name p \<in> mf_creator_name `
               {f \<in> set (media_page_follows (fst ?st)). mf_follower_id f = uid}"
      then obtain f where "f \<in> set (media_page_follows (fst ?st))"
        and "mf_follower_id f = uid" and "mf_creator_name f = p_name p"
        by (auto simp: image_iff)
      with legacy [of f] p(2) show False by simp
    qed
    ultimately show ?thesis
      unfolding c by (simp add: creator_of_def)
  qed
  from local edges legacy reload show ?thesis by blast
qed

lemma demo_round_trip:
  "follow_then_unfollow (str ''u1'') (demo_creator ''c3'' ''Cy'' False) (str ''t1'') (str ''t2'')
     (demo_db, demo_loaded_page) =
   (demo_db,
    demo_loaded_page
      \<lparr>toasts := [\<lparr>t_id = str ''t1'', t_type = Success,
                    t_message = str ''Now following '' @ str ''Cy''\<rparr>,
                  \<lparr>t_id = str ''t2'', t_type = Success, t_message = str ''Unfollowed creator''\<rparr>],
        toast_timers := [(4000, str ''t1''), (4000, str ''t2'')],
        reload_timers := [(1000, ReloadCreators), (1000, ReloadCreators)]\<rparr>)"
  by (simp add: follow_then_unfollow_def handleFollowCreator_def handleUnfollowCreator_def
      Let_def addToast_def setTimeout_def demo_db_def demo_loaded_page_def demo_page_def
      demo_creator_def demo_profile_def demo_edge_def creator_of_def TOAST_DURATION_def str_def)


theorem follow_unfollow_round_trip_witness:
  "demo_creator ''c3'' ''Cy'' False \<in> set (creators demo_loaded_page)
   \<and> distinct (map c_id (creators demo_loaded_page))
   \<and> demo_edge ''u1'' ''c3'' Follow \<notin> set (member_connections (fst
        (follow_then_unfollow (str ''u1'') (demo_creator ''c3'' ''Cy'' False) (str ''t1'')
           (str ''t2'') (demo_db, demo_loaded_page))))
   \<and> \<lparr>mf_follower_id = str ''u1'', mf_creator_name = str ''Cy''\<rparr> \<notin> set (media_page_follows (fst
        (follow_then_unfollow (str ''u1'') (demo_creator ''c3'' ''Cy'' False) (str ''t1'')
           (str ''t2'') (demo_db, demo_loaded_page))))
   \<and> map c_followed (creators (snd
        (follow_then_unfollow (str ''u1'') (demo_creator ''c3'' ''Cy'' False) (str ''t1'')
           (str ''t2'') (demo_db, demo_loaded_page)))) = [True, True, False]"
proof -
  let ?cr = "demo_creator ''c3'' ''Cy'' False"
  have h1: "?cr \<in> set (creators demo_loaded_page)"
    by (simp add: demo_loaded_page_def demo_page_def)
  have h2: "distinct (map c_id (creators demo_loaded_page))"
    by (simp add: demo_loaded_page_def demo_page_def demo_creator_def demo_profile_def
        creator_of_def str_def)
  note inst = follow_unfollow_round_trip [OF h1 h2, of "str ''u1''" "str ''t1''" "str ''t2''"
      demo_db "[]"]
  have ids: "c_id ?cr = str ''c3''" "c_name ?cr = str ''Cy''"
    by (simp_all add: demo_creator_def demo_profile_def creator_of_def)
  have 3: "demo_edge ''u1'' ''c3'' Follow \<notin> set (member_connections (fst
        (follow_then_unfollow (str ''u1'') ?cr (str ''t1'') (str ''t2'')
           (demo_db, demo_loaded_page))))"
  proof
    assume "demo_edge ''u1'' ''c3'' Follow \<in> set (member_connections (fst
        (follow_then_unfollow (str ''u1'') ?cr (str ''t1'') (str ''t2'')
           (demo_db, demo_loaded_page))))"
    with inst have "\<not> (mc_member_id (demo_edge ''u1'' ''c3'' Follow) = str ''u1''
        \<and> mc_connected_user_id (demo_edge ''u1'' ''c3'' Follow) = c_id ?cr)"
      by blast
    then show False by (simp add: demo_edge_def ids)
  qed
  have 4: "\<lparr>mf_follower_id = str ''u1'', mf_creator_name = str ''Cy''\<rparr> \<notin>
      set (media_page_follows (fst
        (follow_then_unfollow (str ''u1'') ?cr (str ''t1'') (str ''t2'')
           (demo_db, demo_loaded_page))))"
  proof
    let ?f = "\<lparr>mf_follower_id = str ''u1'', mf_creator_name = str ''Cy''\<rparr>"
    assume "?f \<in> set (media_page_follows (fst
        (follow_then_unfollow (str ''u1'') ?cr (str ''t1'') (str ''t2'')
           (demo_db, demo_loaded_page))))"
    with inst have "\<not> (mf_follower_id ?f = str ''u1'' \<and> mf_creator_name ?f = c_name ?cr)"
      by blast
    then show False by (simp add: ids)
  qed
  have 5: "map c_followed (creators (snd
        (follow_then_unfollow (str ''u1'') ?cr (str ''t1'') (str ''t2'')
           (demo_db, demo_loaded_page)))) = [True, True, False]"
    unfolding demo_round_trip
    by (simp add: demo_loaded_page_def demo_page_def demo_creator_def creator_of_def)
  from h1 h2 3 4 5 show ?thesis by blast
qed

section \<open>Disconnecting\<close>

text \<open>
  Claim C7 as stated fails. When the first delete returns no failure and the second
  throws, the colleague edge from the current user to the member is gone from the store,
  yet the handler reports an error: success is not reported although one of the two
  delete calls returned no failure. When the first delete throws, the second is never
  attempted.
\<close>

theorem disconnect_throw_reports_error:
  "toasts (snd (handleDisconnectMember (str ''u1'') (str ''m2'') Ok Thrown (str ''t1'')
      (demo_db, demo_page))) =
     [\<lparr>t_id = str ''t1'', t_type = Error, t_message = str ''Failed to disconnect''\<rparr>]
   \<and> member_connections (fst (handleDisconnectMember (str ''u1'') (str ''m2'') Ok Thrown
      (str ''t1'') (demo_db, demo_page))) =
     [demo_edge ''u1'' ''c1'' Follow, demo_edge ''m1'' ''u1'' Colleague,
      demo_edge ''m1'' ''m2'' Colleague]
   \<and> handleDisconnectMember (str ''m2'') (str ''u1'') Thrown Ok (str ''t1'')
      (demo_db, demo_page) =
     (demo_db, addToast (str ''Failed to disconnect'') Error (str ''t1'') demo_page)"
  by (simp add: handleDisconnectMember_def delete_colleague_edge_def addToast_def Let_def
      demo_db_def demo_page_def demo_edge_def str_def)

lemma handleDisconnectMember_store:
  "fst (handleDisconnectMember uid memberId o1 o2 tid (db, s)) =
     db\<lparr>member_connections :=
          filter (\<lambda>e. \<not> (o1 = Ok \<and> mc_member_id e = uid \<and> mc_connected_user_id e = memberId
                            \<and> mc_connection_type e = Colleague)
                      \<and> \<not> (o1 \<noteq> Thrown \<and> o2 = Ok \<and> mc_member_id e = memberId
                            \<and> mc_connected_user_id e = uid
                            \<and> mc_connection_type e = Colleague))
            (member_connections db)\<rparr>"
  by (cases o1; cases o2)
     (simp_all add: handleDisconnectMember_def delete_colleague_edge_def Let_def)

lemma handleDisconnectMember_toasts:
  "toasts (snd (handleDisconnectMember uid memberId o1 o2 tid (db, s))) =
     toasts s @ [if o1 \<noteq> Thrown \<and> o2 \<noteq> Thrown \<and> (o1 = Ok \<or> o2 = Ok)
                 then \<lparr>t_id = tid, t_type = Success, t_message = str ''Disconnected''\<rparr>
                 else \<lparr>t_id = tid, t_type = Error, t_message = str ''Failed to disconnect''\<rparr>]"
  by (cases o1; cases o2)
     (simp_all add: handleDisconnectMember_def Let_def addToast_def setTimeout_def
        removeCachedMembers_def)

text \<open>
  Claim C7, amended. \<open>handleDisconnectMember\<close> appends the success toast exactly when
  both delete calls return and at least one of them returns no failure; in every other
  case (both return a failure, or one of them throws, even after the other succeeded) it
  appends the error toast. The store afterwards is the old one without the colleague
  edges from the current user to the member, when the first delete returned no failure,
  and without the colleague edges from the member to the current user, when the first
  delete did not throw and the second returned no failure; no other row is touched.
  When the store holds no colleague edge between the two users in either direction (as
  after a first disconnect), the store is left as it is.
\<close>

theorem handleDisconnectMember_reports:
  "(toasts (snd (handleDisconnectMember uid memberId o1 o2 tid (db, s))) =
      toasts s @ [\<lparr>t_id = tid, t_type = Success, t_message = str ''Disconnected''\<rparr>]
    \<longleftrightarrow> o1 \<noteq> Thrown \<and> o2 \<noteq> Thrown \<and> (o1 = Ok \<or> o2 = Ok))
   \<and> (toasts (snd (handleDisconnectMember uid memberId o1 o2 tid (db, s))) =
      toasts s @ [\<lparr>t_id = tid, t_type = Error, t_message = str ''Failed to disconnect''\<rparr>]
    \<longleftrightarrow> \<not> (o1 \<noteq> Thrown \<and> o2 \<noteq> Thrown \<and> (o1 = Ok \<or> o2 = Ok)))
   \<and> fst (handleDisconnectMember uid memberId o1 o2 tid (db, s)) =
       db\<lparr>member_connections :=
            filter (\<lambda>e. \<not> (o1 = Ok \<and> mc_member_id e = uid \<and> mc_connected_user_id e = memberId
                              \<and> mc_connection_type e = Colleague)
                        \<and> \<not> (o1 \<noteq> Thrown \<and> o2 = Ok \<and> mc_member_id e = memberId
                              \<and> mc_connected_user_id e = uid
                              \<and> mc_connection_type e = Colleague))
              (member_connections db)\<rparr>
   \<and> ((\<forall>e \<in> set (member_connections db).
          mc_connection_type e = Colleague \<longrightarrow>
            \<not> (mc_member_id e = uid \<and> mc_connected_user_id e = memberId)
            \<and> \<not> (mc_member_id e = memberId \<and> mc_connected_user_id e = uid)) \<longrightarrow>
       fst (handleDisconnectMember uid memberId o1 o2 tid (db, s)) = db)"
proof -
  note t = handleDisconnectMember_toasts [of uid memberId o1 o2 tid db s]
  note d = handleDisconnectMember_store [of uid memberId o1 o2 tid db s]
  have unchanged: "fst (handleDisconnectMember uid memberId o1 o2 tid (db, s)) = db"
    if none: "\<forall>e \<in> set (member_connections db).
          mc_connection_type e = Colleague \<longrightarrow>
            \<not> (mc_member_id e = uid \<and> mc_connected_user_id e = memberId)
            \<and> \<not> (mc_member_id e = memberId \<and> mc_connected_user_id e = uid)"
  proof -
    have "filter (\<lambda>e. \<not> (o1 = Ok \<and> mc_member_id e = uid \<and> mc_connected_user_id e = memberId
                              \<and> mc_connection_type e = Colleague)
                        \<and> \<not> (o1 \<noteq> Thrown \<and> o2 = Ok \<and> mc_member_id e = memberId
                              \<and> mc_connected_user_id e = uid
                              \<and> mc_connection_type e = Colleague))
              (member_connections db) = member_connections db"
      unfolding filter_id_conv using none by blast
    then show ?thesis unfolding d by simp
  qed
  have s1: "toasts (snd (handleDisconnectMember uid memberId o1 o2 tid (db, s))) =
      toasts s @ [\<lparr>t_id = tid, t_type = Success, t_message = str ''Disconnected''\<rparr>]
    \<longleftrightarrow> o1 \<noteq> Thrown \<and> o2 \<noteq> Thrown \<and> (o1 = Ok \<or> o2 = Ok)"
    unfolding t by simp
  have s2: "toasts (snd (handleDisconnectMember uid memberId o1 o2 tid (db, s))) =
      toasts s @ [\<lparr>t_id = tid, t_type = Error, t_message = str ''Failed to disconnect''\<rparr>]
    \<longleftrightarrow> \<not> (o1 \<noteq> Thrown \<and> o2 \<noteq> Thrown \<and> (o1 = Ok \<or> o2 = Ok))"
    unfolding t by simp
  from s1 s2 d unchanged show ?thesis by blast
qed

theorem handleDisconnectMember_reports_witness:
  "member_connections (fst (handleDisconnectMember (str ''u1'') (str ''m2'') Ok Ok (str ''t1'')
      (demo_db\<lparr>member_connections :=
                 member_connections demo_db @ [demo_edge ''m2'' ''u1'' Colleague]\<rparr>,
       demo_page))) =
     [demo_edge ''u1'' ''c1'' Follow, demo_edge ''m1'' ''u1'' Colleague,
      demo_edge ''m1'' ''m2'' Colleague]
   \<and> member_connections (fst (handleDisconnectMember (str ''u1'') (str ''m2'') Failed Ok
      (str ''t1'')
      (demo_db\<lparr>member_connections :=
                 member_connections demo_db @ [demo_edge ''m2'' ''u1'' Colleague]\<rparr>,
       demo_page))) =
     [demo_edge ''u1'' ''c1'' Follow, demo_edge ''m1'' ''u1'' Colleague,
      demo_edge ''u1'' ''m2'' Colleague, demo_edge ''m1'' ''m2'' Colleague]
   \<and> toasts (snd (handleDisconnectMember (str ''u1'') (str ''m2'') Failed Ok (str ''t1'')
      (demo_db, demo_page))) =
     [\<lparr>t_id = str ''t1'', t_type = Success, t_message = str ''Disconnected''\<rparr>]
   \<and> toasts (snd (handleDisconnectMember (str ''u1'') (str ''m2'') Failed Failed (str ''t1'')
      (demo_db, demo_page))) =
     [\<lparr>t_id = str ''t1'', t_type = Error, t_message = str ''Failed to disconnect''\<rparr>]
   \<and> toasts (snd (handleDisconnectMember (str ''u1'') (str ''m2'') Ok Thrown (str ''t1'')
      (demo_db, demo_page))) =
     [\<lparr>t_id = str ''t1'', t_type = Error, t_message = str ''Failed to disconnect''\<rparr>]
   \<and> fst (handleDisconnectMember (str ''u1'') (str ''m3'') Ok Ok (str ''t1'')
      (demo_db, demo_page)) = demo_db
   \<and> toasts (snd (handleDisconnectMember (str ''u1'') (str ''m3'') Ok Ok (str ''t1'')
      (demo_db, demo_page))) =
     [\<lparr>t_id = str ''t1'', t_type = Success, t_message = str ''Disconnected''\<rparr>]"
proof -
  let ?both = "demo_db\<lparr>member_connections :=
                 member_connections demo_db @ [demo_edge ''m2'' ''u1'' Colleague]\<rparr>"
  note a = handleDisconnectMember_reports [of "str ''u1''" "str ''m2''" Ok Ok "str ''t1''"
      ?both demo_page]
  note b = handleDisconnectMember_reports [of "str ''u1''" "str ''m2''" Failed Ok "str ''t1''"
      ?both demo_page]
  note c = handleDisconnectMember_reports [of "str ''u1''" "str ''m2''" Failed Ok "str ''t1''"
      demo_db demo_page]
  note d = handleDisconnectMember_reports [of "str ''u1''" "str ''m2''" Failed Failed
      "str ''t1''" demo_db demo_page]
  note e = handleDisconnectMember_reports [of "str ''u1''" "str ''m2''" Ok Thrown
      "str ''t1''" demo_db demo_page]
  note f = handleDisconnectMember_reports [of "str ''u1''" "str ''m3''" Ok Ok
      "str ''t1''" demo_db demo_page]
  have 1: "member_connections (fst (handleDisconnectMember (str ''u1'') (str ''m2'') Ok Ok
      (str ''t1'') (?both, demo_page))) =
     [demo_edge ''u1'' ''c1'' Follow, demo_edge ''m1'' ''u1'' Colleague,
      demo_edge ''m1'' ''m2'' Colleague]"
    using a by (simp add: demo_db_def demo_edge_def str_def)
  have 2: "member_connections (fst (handleDisconnectMember (str ''u1'') (str ''m2'') Failed Ok
      (str ''t1'') (?both, demo_page))) =
     [demo_edge ''u1'' ''c1'' Follow, demo_edge ''m1'' ''u1'' Colleague,
      demo_edge ''u1'' ''m2'' Colleague, demo_edge ''m1'' ''m2'' Colleague]"
    using b by (simp add: demo_db_def demo_edge_def str_def)
  have 3: "toasts (snd (handleDisconnectMember (str ''u1'') (str ''m2'') Failed Ok (str ''t1'')
      (demo_db, demo_page))) =
     [\<lparr>t_id = str ''t1'', t_type = Success, t_message = str ''Disconnected''\<rparr>]"
    using c by (simp add: demo_page_def)
  have 4: "toasts (snd (handleDisconnectMember (str ''u1'') (str ''m2'') Failed Failed
      (str ''t1'') (demo_db, demo_page))) =
     [\<lparr>t_id = str ''t1'', t_type = Error, t_message = str ''Failed to disconnect''\<rparr>]"
    using d by (simp add: demo_page_def)
  have 5: "toasts (snd (handleDisconnectMember (str ''u1'') (str ''m2'') Ok Thrown (str ''t1'')
      (demo_db, demo_page))) =
     [\<lparr>t_id = str ''t1'', t_type = Error, t_message = str ''Failed to disconnect''\<rparr>]"
    using e by (simp add: demo_page_def)
  have absent: "\<forall>e \<in> set (member_connections demo_db).
          mc_connection_type e = Colleague \<longrightarrow>
            \<not> (mc_member_id e = str ''u1'' \<and> mc_connected_user_id e = str ''m3'')
            \<and> \<not> (mc_member_id e = str ''m3'' \<and> mc_connected_user_id e = str ''u1'')"
    by (simp add: demo_db_def demo_edge_def str_def)
  with f have 6: "fst (handleDisconnectMember (str ''u1'') (str ''m3'') Ok Ok (str ''t1'')
      (demo_db, demo_page)) = demo_db"
    by blast
  have 7: "toasts (snd (handleDisconnectMember (str ''u1'') (str ''m3'') Ok Ok (str ''t1'')
      (demo_db, demo_page))) =
     [\<lparr>t_id = str ''t1'', t_type = Success, t_message = str ''Disconnected''\<rparr>]"
    using f by (simp add: demo_page_def)
  from 1 2 3 4 5 6 7 show ?thesis by blast
qed

section \<open>Sending a message\<close>

lemma dropWhile_all_Nil:
  assumes "\<forall>x \<in> set (dropWhile P xs). P x"
  shows "dropWhile P xs = []"
proof (rule ccontr)
  assume ne: "dropWhile P xs \<noteq> []"
  then have "\<not> P (hd (dropWhile P xs))"
    by (rule hd_dropWhile)
  moreover from ne have "hd (dropWhile P xs) \<in> set (dropWhile P xs)"
    by (rule hd_in_set)
  ultimately show False using assms by blast
qed

lemma trim_empty_iff: "trim s = [] \<longleftrightarrow> (\<forall>c \<in> set s. js_whitespace c)"
proof
  assume "trim s = []"
  then have "\<forall>x \<in> set (dropWhile js_whitespace s). js_whitespace x"
    by (simp add: trim_def)
  then have "dropWhile js_whitespace s = []"
    by (rule dropWhile_all_Nil)
  then show "\<forall>c \<in> set s. js_whitespace c"
    by simp
next
  assume "\<forall>c \<in> set s. js_whitespace c"
  then have dw: "dropWhile js_whitespace s = []"
    by simp
  show "trim s = []"
    by (simp only: trim_def dw rev.simps dropWhile.simps)
qed

text \<open>
  Claim C8. \<open>handleSendMessage\<close> changes nothing, neither the store nor the page (draft
  included), when no connection is selected or every code unit of the draft is white
  space (the empty draft included). Otherwise, when the insert succeeds (the clock being
  within the range of \<open>Date\<close>), the store has exactly one more message row, from the
  current user to the selected connection, with the draft as content, the current time
  as timestamp and \<open>read = false\<close>; the draft is cleared and the success toast is
  appended. The message list is reloaded: when the read of the reload returns its rows,
  the list on the page is made of the rows of the new store addressed to the current
  user, newest first, at most 50, each with the name and avatar of its sender's profile
  (\<open>Unknown\<close> and the empty string when there is none).
\<close>

theorem handleSendMessage_spec:
  "(selectedConnection s = None \<or> (\<forall>c \<in> set (messageInput s). js_whitespace c) \<longrightarrow>
      handleSendMessage uid o1 r tid (db, s) = (db, s))
   \<and> (\<forall>sel. selectedConnection s = Some sel
         \<and> \<not> (\<forall>c \<in> set (messageInput s). js_whitespace c) \<and> clock s \<le> MAX_DATE_MS
         \<and> o1 = Ok \<longrightarrow>
       fst (handleSendMessage uid o1 r tid (db, s)) =
         db\<lparr>messages_rel := messages_rel db @
               [\<lparr>mr_id = next_id db, mr_sender_id = uid, mr_recipient_id = cn_id sel,
                 mr_content = messageInput s, mr_timestamp = clock s, mr_read = False\<rparr>],
            next_id := Suc (next_id db)\<rparr>
       \<and> messageInput (snd (handleSendMessage uid o1 r tid (db, s))) = []
       \<and> (r = Ok \<longrightarrow>
            messages (snd (handleSendMessage uid o1 r tid (db, s))) =
              map (\<lambda>m. \<lparr>msg_id = mr_id m, msg_sender_id = mr_sender_id m,
                         msg_sender_name =
                           (case find (\<lambda>p. p_id p = mr_sender_id m) (profiles db) of
                              None \<Rightarrow> str ''Unknown''
                            | Some p \<Rightarrow> if p_name p = [] then str ''Unknown'' else p_name p),
                         msg_sender_avatar =
                           (case find (\<lambda>p. p_id p = mr_sender_id m) (profiles db) of
                              None \<Rightarrow> [] | Some p \<Rightarrow> p_avatar_url p),
                         msg_content = mr_content m, msg_timestamp = mr_timestamp m,
                         msg_read = mr_read m\<rparr>)
                (take 50 (sort_key (\<lambda>m. - int (mr_timestamp m))
                   (filter (\<lambda>m. mr_recipient_id m = uid)
                      (messages_rel db @
                         [\<lparr>mr_id = next_id db, mr_sender_id = uid,
                           mr_recipient_id = cn_id sel, mr_content = messageInput s,
                           mr_timestamp = clock s, mr_read = False\<rparr>])))))
       \<and> messages (snd (handleSendMessage uid o1 r tid (db, s))) =
           messages (loadMessages uid (fst (handleSendMessage uid o1 r tid (db, s))) r s)
       \<and> toasts (snd (handleSendMessage uid o1 r tid (db, s))) =
           toasts s @ [\<lparr>t_id = tid, t_type = Success, t_message = str ''Message sent''\<rparr>])"
proof -
  have noop: "handleSendMessage uid o1 r tid (db, s) = (db, s)"
    if "selectedConnection s = None \<or> (\<forall>c \<in> set (messageInput s). js_whitespace c)"
    using that
    by (auto simp: handleSendMessage_def trim_empty_iff split: option.splits)
  have send: "fst (handleSendMessage uid Ok r tid (db, s)) =
         db\<lparr>messages_rel := messages_rel db @
               [\<lparr>mr_id = next_id db, mr_sender_id = uid, mr_recipient_id = cn_id sel,
                 mr_content = messageInput s, mr_timestamp = clock s, mr_read = False\<rparr>],
            next_id := Suc (next_id db)\<rparr>
       \<and> messageInput (snd (handleSendMessage uid Ok r tid (db, s))) = []
       \<and> (r = Ok \<longrightarrow>
            messages (snd (handleSendMessage uid Ok r tid (db, s))) =
              map (\<lambda>m. \<lparr>msg_id = mr_id m, msg_sender_id = mr_sender_id m,
                         msg_sender_name =
                           (case find (\<lambda>p. p_id p = mr_sender_id m) (profiles db) of
                              None \<Rightarrow> str ''Unknown''
                            | Some p \<Rightarrow> if p_name p = [] then str ''Unknown'' else p_name p),
                         msg_sender_avatar =
                           (case find (\<lambda>p. p_id p = mr_sender_id m) (profiles db) of
                              None \<Rightarrow> [] | Some p \<Rightarrow> p_avatar_url p),
                         msg_content = mr_content m, msg_timestamp = mr_timestamp m,
                         msg_read = mr_read m\<rparr>)
                (take 50 (sort_key (\<lambda>m. - int (mr_timestamp m))
                   (filter (\<lambda>m. mr_recipient_id m = uid)
                      (messages_rel db @
                         [\<lparr>mr_id = next_id db, mr_sender_id = uid,
                           mr_recipient_id = cn_id sel, mr_content = messageInput s,
                           mr_timestamp = clock s, mr_read = False\<rparr>])))))
       \<and> messages (snd (handleSendMessage uid Ok r tid (db, s))) =
           messages (loadMessages uid (fst (handleSendMessage uid Ok r tid (db, s))) r s)
       \<and> toasts (snd (handleSendMessage uid Ok r tid (db, s))) =
           toasts s @ [\<lparr>t_id = tid, t_type = Success, t_message = str ''Message sent''\<rparr>]"
    if "selectedConnection s = Some sel" "\<not> (\<forall>c \<in> set (messageInput s). js_whitespace c)"
      "clock s \<le> MAX_DATE_MS"
    for sel
  proof -
    from that(2) have nb: "trim (messageInput s) \<noteq> []"
      by (simp add: trim_empty_iff)
    from that(3) have rng: "\<not> MAX_DATE_MS < clock s"
      by simp
    have mo: "message_of d m =
        \<lparr>msg_id = mr_id m, msg_sender_id = mr_sender_id m,
         msg_sender_name =
           (case find (\<lambda>p. p_id p = mr_sender_id m) (profiles d) of
              None \<Rightarrow> str ''Unknown''
            | Some p \<Rightarrow> if p_name p = [] then str ''Unknown'' else p_name p),
         msg_sender_avatar =
           (case find (\<lambda>p. p_id p = mr_sender_id m) (profiles d) of
              None \<Rightarrow> [] | Some p \<Rightarrow> p_avatar_url p),
         msg_content = mr_content m, msg_timestamp = mr_timestamp m,
         msg_read = mr_read m\<rparr>" for d m
      by (simp add: message_of_def Let_def)
    from that(1) nb rng show ?thesis
      by (simp add: handleSendMessage_def Let_def addToast_def loadMessages_def mo)
  qed
  from noop send show ?thesis by blast
qed

theorem handleSendMessage_spec_witness:
  "handleSendMessage (str ''u1'') Ok Ok (str ''t1'') (demo_mail_db, demo_page) =
     (demo_mail_db, demo_page)
   \<and> handleSendMessage (str ''u1'') Ok Ok (str ''t1'')
        (demo_mail_db, demo_chat_page\<lparr>messageInput := [32, 9, 160]\<rparr>) =
       (demo_mail_db, demo_chat_page\<lparr>messageInput := [32, 9, 160]\<rparr>)
   \<and> messages_rel (fst (handleSendMessage (str ''u1'') Ok Ok (str ''t1'')
        (demo_mail_db, demo_chat_page))) =
       messages_rel demo_mail_db @
       [\<lparr>mr_id = 10, mr_sender_id = str ''u1'', mr_recipient_id = str ''m2'',
         mr_content = str '' hi '', mr_timestamp = 0, mr_read = False\<rparr>]
   \<and> messageInput (snd (handleSendMessage (str ''u1'') Ok Ok (str ''t1'')
        (demo_mail_db, demo_chat_page))) = []
   \<and> map (\<lambda>m. (msg_id m, msg_sender_name m, msg_timestamp m))
        (messages (snd (handleSendMessage (str ''u1'') Ok Ok (str ''t1'')
           (demo_mail_db, demo_chat_page)))) =
       [(8, str ''Dave'', 9), (7, str ''Carol'', 5)]
   \<and> map (\<lambda>m. (msg_id m, msg_sender_name m, msg_timestamp m))
        (messages (snd (handleSendMessage (str ''m2'') Ok Ok (str ''t1'')
           (demo_mail_db, demo_chat_page)))) =
       [(9, str ''Carol'', 7), (10, str ''Dave'', 0)]"
proof -
  note a = handleSendMessage_spec [of demo_page "str ''u1''" Ok Ok "str ''t1''" demo_mail_db]
  note b = handleSendMessage_spec [of "demo_chat_page\<lparr>messageInput := [32, 9, 160]\<rparr>"
      "str ''u1''" Ok Ok "str ''t1''" demo_mail_db]
  note c = handleSendMessage_spec [of demo_chat_page "str ''u1''" Ok Ok "str ''t1''"
      demo_mail_db]
  note d = handleSendMessage_spec [of demo_chat_page "str ''m2''" Ok Ok "str ''t1''"
      demo_mail_db]
  have 1: "handleSendMessage (str ''u1'') Ok Ok (str ''t1'') (demo_mail_db, demo_page) =
      (demo_mail_db, demo_page)"
    using a by (simp add: demo_page_def)
  have 2: "handleSendMessage (str ''u1'') Ok Ok (str ''t1'')
        (demo_mail_db, demo_chat_page\<lparr>messageInput := [32, 9, 160]\<rparr>) =
       (demo_mail_db, demo_chat_page\<lparr>messageInput := [32, 9, 160]\<rparr>)"
    using b by (simp add: js_whitespace_def)
  have sel: "selectedConnection demo_chat_page =
      Some \<lparr>cn_id = str ''m2'', cn_name = str ''Dave'', cn_avatar_url = [],
            cn_role = MemberAccount, cn_bio = [], cn_isFollowing = True\<rparr>"
    and draft: "messageInput demo_chat_page = str '' hi ''"
    and clk: "clock demo_chat_page = 0"
    by (simp_all add: demo_chat_page_def demo_page_def)
  have nonblank: "\<not> (\<forall>c \<in> set (messageInput demo_chat_page). js_whitespace c)"
    unfolding draft by (simp add: str_def js_whitespace_def)
  have rng: "clock demo_chat_page \<le> MAX_DATE_MS"
    by (simp add: clk)
  have rows: "messages_rel demo_mail_db =
      [\<lparr>mr_id = 7, mr_sender_id = str ''m1'', mr_recipient_id = str ''u1'',
        mr_content = str ''old'', mr_timestamp = 5, mr_read = False\<rparr>,
       \<lparr>mr_id = 8, mr_sender_id = str ''m2'', mr_recipient_id = str ''u1'',
        mr_content = str ''new'', mr_timestamp = 9, mr_read = False\<rparr>,
       \<lparr>mr_id = 9, mr_sender_id = str ''m1'', mr_recipient_id = str ''m2'',
        mr_content = str ''other'', mr_timestamp = 7, mr_read = False\<rparr>]"
    and nid: "next_id demo_mail_db = 10"
    and profs: "profiles demo_mail_db = profiles demo_db"
    by (simp_all add: demo_mail_db_def)
  from c sel nonblank rng have 3: "messages_rel (fst (handleSendMessage (str ''u1'') Ok Ok
      (str ''t1'') (demo_mail_db, demo_chat_page))) =
       messages_rel demo_mail_db @
       [\<lparr>mr_id = 10, mr_sender_id = str ''u1'', mr_recipient_id = str ''m2'',
         mr_content = str '' hi '', mr_timestamp = 0, mr_read = False\<rparr>]"
    and 4: "messageInput (snd (handleSendMessage (str ''u1'') Ok Ok (str ''t1'')
        (demo_mail_db, demo_chat_page))) = []"
    by (simp_all add: draft clk nid)
  from c sel nonblank rng have 5: "map (\<lambda>m. (msg_id m, msg_sender_name m, msg_timestamp m))
        (messages (snd (handleSendMessage (str ''u1'') Ok Ok (str ''t1'')
           (demo_mail_db, demo_chat_page)))) =
       [(8, str ''Dave'', 9), (7, str ''Carol'', 5)]"
    by (simp add: draft clk nid rows profs demo_db_def demo_profile_def str_def)
  from d sel nonblank rng have 6: "map (\<lambda>m. (msg_id m, msg_sender_name m, msg_timestamp m))
        (messages (snd (handleSendMessage (str ''m2'') Ok Ok (str ''t1'')
           (demo_mail_db, demo_chat_page)))) =
       [(9, str ''Carol'', 7), (10, str ''Dave'', 0)]"
    by (simp add: draft clk nid rows profs demo_db_def demo_profile_def str_def)
  from 1 2 3 4 5 6 show ?thesis by blast
qed

section \<open>The key of the unfollow delete\<close>

lemma find_Some_of_mem:
  assumes "k \<in> f ` set xs"
  shows "\<exists>c. find (\<lambda>x. f x = k) xs = Some c"
  using assms by (induction xs) auto

lemma handleUnfollowCreator_member_connections:
  assumes "creatorId \<in> c_id ` set (creators s)" and "o1 = Ok"
  shows "member_connections (fst (handleUnfollowCreator uid creatorId o1 o2 tid (db, s))) =
     filter (\<lambda>e. \<not> (mc_member_id e = uid \<and> mc_connected_user_id e = creatorId))
       (member_connections db)"
proof -
  from find_Some_of_mem [OF assms(1)]
  obtain c where "find (\<lambda>x. c_id x = creatorId) (creators s) = Some c" ..
  then show ?thesis
    unfolding assms(2)
    by (cases o2) (simp_all add: handleUnfollowCreator_def Let_def)
qed

text \<open>
  Claim C9. For a creator id of the loaded list and a delete that succeeds,
  \<open>handleUnfollowCreator\<close> leaves in \<open>member_connections\<close> exactly the rows that are not
  keyed by (current user, creator id): every row with that key is gone whatever its
  connection type, a colleague edge as much as the follow edge, although
  \<open>handleFollowCreator\<close> had appended one row of type follow only.
\<close>

theorem handleUnfollowCreator_deletes_every_kind:
  assumes "creatorId \<in> c_id ` set (creators s)" and "o1 = Ok"
  shows "member_connections (fst (handleUnfollowCreator uid creatorId o1 o2 tid (db, s))) =
           filter (\<lambda>e. \<not> (mc_member_id e = uid \<and> mc_connected_user_id e = creatorId))
             (member_connections db)
         \<and> (\<forall>e \<in> set (member_connections db).
               mc_member_id e = uid \<and> mc_connected_user_id e = creatorId \<longrightarrow>
               e \<notin> set (member_connections
                         (fst (handleUnfollowCreator uid creatorId o1 o2 tid (db, s)))))
         \<and> (\<forall>k st. \<lparr>mc_member_id = uid, mc_connected_user_id = creatorId,
                      mc_connection_type = k, mc_status = st\<rparr>
               \<notin> set (member_connections
                         (fst (handleUnfollowCreator uid creatorId o1 o2 tid (db, s)))))
         \<and> member_connections (fst (handleFollowCreator uid cr o1 o2 tid (db, s))) =
             member_connections db @
               [\<lparr>mc_member_id = uid, mc_connected_user_id = c_id cr,
                 mc_connection_type = Follow, mc_status = str ''active''\<rparr>]"
proof -
  note eq = handleUnfollowCreator_member_connections [OF assms, of uid o2 tid db]
  have follow: "member_connections (fst (handleFollowCreator uid cr Ok o2 tid (db, s))) =
             member_connections db @
               [\<lparr>mc_member_id = uid, mc_connected_user_id = c_id cr,
                 mc_connection_type = Follow, mc_status = str ''active''\<rparr>]"
    by (cases o2) (simp_all add: handleFollowCreator_def Let_def)
  have gone: "e \<notin> set (filter (\<lambda>e. \<not> (mc_member_id e = uid \<and> mc_connected_user_id e = creatorId))
             (member_connections db))"
    if "mc_member_id e = uid \<and> mc_connected_user_id e = creatorId" for e
    using that by simp
  have kinds: "\<lparr>mc_member_id = uid, mc_connected_user_id = creatorId,
                      mc_connection_type = k, mc_status = st\<rparr>
               \<notin> set (filter (\<lambda>e. \<not> (mc_member_id e = uid \<and> mc_connected_user_id e = creatorId))
             (member_connections db))" for k st
    by simp
  note eq' = eq [unfolded assms(2)]
  show ?thesis
    unfolding assms(2) eq'
    by (intro conjI ballI impI allI, rule refl, rule gone, assumption, rule kinds, rule follow)
qed


theorem handleUnfollowCreator_deletes_every_kind_witness:
  "str ''c1'' \<in> c_id ` set (creators demo_loaded_page)
   \<and> member_connections (fst (handleUnfollowCreator (str ''u1'') (str ''c1'') Ok Ok (str ''t1'')
        (demo_db\<lparr>member_connections :=
                   [demo_edge ''u1'' ''c1'' Follow, demo_edge ''u1'' ''c1'' Colleague,
                    demo_edge ''m1'' ''u1'' Colleague]\<rparr>,
         demo_loaded_page))) =
       [demo_edge ''m1'' ''u1'' Colleague]"
proof -
  have h: "str ''c1'' \<in> c_id ` set (creators demo_loaded_page)"
    by (simp add: demo_loaded_page_def demo_page_def demo_creator_def demo_profile_def
        creator_of_def)
  note inst = handleUnfollowCreator_deletes_every_kind [OF h refl, of "str ''u1''" Ok "str ''t1''"
      "demo_db\<lparr>member_connections :=
                   [demo_edge ''u1'' ''c1'' Follow, demo_edge ''u1'' ''c1'' Colleague,
                    demo_edge ''m1'' ''u1'' Colleague]\<rparr>"]
  from inst have "member_connections (fst (handleUnfollowCreator (str ''u1'') (str ''c1'') Ok Ok
      (str ''t1'')
        (demo_db\<lparr>member_connections :=
                   [demo_edge ''u1'' ''c1'' Follow, demo_edge ''u1'' ''c1'' Colleague,
                    demo_edge ''m1'' ''u1'' Colleague]\<rparr>,
         demo_loaded_page))) =
       [demo_edge ''m1'' ''u1'' Colleague]"
    by (simp add: demo_edge_def str_def)
  with h show ?thesis by blast
qed

section \<open>Lifetime of a toast\<close>

lemma fold_removeToast:
  "fold (\<lambda>(at, tid). removeToast tid) due s =
     s\<lparr>toasts := filter (\<lambda>t. t_id t \<notin> snd ` set due) (toasts s)\<rparr>"
proof (induction due arbitrary: s)
  case Nil
  show ?case by simp
next
  case (Cons a due)
  obtain at i where a: "a = (at, i)" by (cases a)
  have "fold (\<lambda>(at, tid). removeToast tid) (a # due) s =
        fold (\<lambda>(at, tid). removeToast tid) due (removeToast i s)"
    unfolding a by simp
  also have "\<dots> = (removeToast i s)
      \<lparr>toasts := filter (\<lambda>t. t_id t \<notin> snd ` set due) (toasts (removeToast i s))\<rparr>"
    by (rule Cons.IH)
  also have "\<dots> = s\<lparr>toasts := filter (\<lambda>t. t_id t \<notin> snd ` set (a # due)) (toasts s)\<rparr>"
    unfolding a removeToast_def by (simp add: conj_commute)
  finally show ?case .
qed

lemma elapse_fields:
  "clock (elapse d s) = clock s + d"
  "toast_timers (elapse d s) = filter (\<lambda>p. \<not> fst p \<le> clock s + d) (toast_timers s)"
  "toasts (elapse d s) =
     filter (\<lambda>t. t_id t \<notin> snd ` set (filter (\<lambda>p. fst p \<le> clock s + d) (toast_timers s)))
       (toasts s)"
  by (simp_all add: elapse_def Let_def fold_removeToast case_prod_unfold
      fold_removeToast [unfolded case_prod_unfold])


lemma toast_scheduled_addToast:
  assumes "tid \<notin> t_id ` set (toasts s)" and "tid \<notin> snd ` set (toast_timers s)"
  shows "toast_scheduled \<lparr>t_id = tid, t_type = ty, t_message = msg\<rparr> (clock s + TOAST_DURATION)
           (addToast msg ty tid s)"
proof -
  from assms(2) have "snd p \<noteq> tid" if "p \<in> set (toast_timers s)" for p
    using that by (auto simp: image_iff)
  then show ?thesis
    by (auto simp: toast_scheduled_def addToast_def TOAST_DURATION_def)
qed

lemma toast_scheduled_add_other:
  assumes "toast_scheduled x due s" and "tid \<noteq> t_id x"
  shows "toast_scheduled x due (addToast msg ty tid s)"
proof (cases "clock s < due")
  case True
  with assms show ?thesis
    by (simp add: toast_scheduled_def addToast_def)
next
  case False
  with assms show ?thesis
    by (simp add: toast_scheduled_def addToast_def image_Un)
qed

lemma elapse_toast_mem:
  "y \<in> set (toasts (elapse d s)) \<longleftrightarrow>
     y \<in> set (toasts s)
     \<and> (\<forall>p \<in> set (toast_timers s). fst p \<le> clock s + d \<longrightarrow> snd p \<noteq> t_id y)"
  unfolding elapse_fields by (auto simp: image_iff)

lemma elapse_timer_mem:
  "p \<in> set (toast_timers (elapse d s)) \<longleftrightarrow>
     p \<in> set (toast_timers s) \<and> \<not> fst p \<le> clock s + d"
  unfolding elapse_fields by simp

lemma toast_scheduled_elapse:
  assumes "toast_scheduled x due s"
  shows "toast_scheduled x due (elapse d s)"
proof (cases "clock s < due")
  case live: True
  with assms have x: "x \<in> set (toasts s)" and tm: "(due, t_id x) \<in> set (toast_timers s)"
    and uniq: "\<And>p. p \<in> set (toast_timers s) \<Longrightarrow> snd p = t_id x \<Longrightarrow> fst p = due"
    by (simp_all add: toast_scheduled_def)
  show ?thesis
  proof (cases "clock s + d < due")
    case True
    have 1: "x \<in> set (toasts (elapse d s))"
      unfolding elapse_toast_mem using x uniq True by fastforce
    have 2: "(due, t_id x) \<in> set (toast_timers (elapse d s))"
      unfolding elapse_timer_mem using tm True by simp
    have 3: "\<forall>p \<in> set (toast_timers (elapse d s)). snd p = t_id x \<longrightarrow> fst p = due"
      using uniq by (auto simp: elapse_timer_mem)
    from 1 2 3 True show ?thesis
      by (simp add: toast_scheduled_def elapse_fields(1))
  next
    case False
    have 1: "t_id x \<notin> t_id ` set (toasts (elapse d s))"
    proof
      assume "t_id x \<in> t_id ` set (toasts (elapse d s))"
      then obtain y where "y \<in> set (toasts (elapse d s))" and "t_id y = t_id x"
        by (auto simp: image_iff)
      then have "\<forall>p \<in> set (toast_timers s). fst p \<le> clock s + d \<longrightarrow> snd p \<noteq> t_id x"
        unfolding elapse_toast_mem by simp
      with tm False show False by fastforce
    qed
    have 2: "t_id x \<notin> snd ` set (toast_timers (elapse d s))"
    proof
      assume "t_id x \<in> snd ` set (toast_timers (elapse d s))"
      then obtain p where "p \<in> set (toast_timers (elapse d s))" and "snd p = t_id x"
        by (auto simp: image_iff)
      then have "p \<in> set (toast_timers s)" and "\<not> fst p \<le> clock s + d" and "snd p = t_id x"
        unfolding elapse_timer_mem by simp_all
      with uniq [of p] False show False by simp
    qed
    from 1 2 False show ?thesis
      by (simp add: toast_scheduled_def elapse_fields(1))
  qed
next
  case False
  with assms have a: "t_id x \<notin> t_id ` set (toasts s)" and b: "t_id x \<notin> snd ` set (toast_timers s)"
    by (simp_all add: toast_scheduled_def)
  have 1: "t_id x \<notin> t_id ` set (toasts (elapse d s))"
  proof
    assume "t_id x \<in> t_id ` set (toasts (elapse d s))"
    then obtain y where "y \<in> set (toasts (elapse d s))" and "t_id y = t_id x"
      by (auto simp: image_iff)
    then have "y \<in> set (toasts s)" and "t_id y = t_id x"
      unfolding elapse_toast_mem by simp_all
    with a show False by (simp add: image_iff) metis
  qed
  have 2: "t_id x \<notin> snd ` set (toast_timers (elapse d s))"
  proof
    assume "t_id x \<in> snd ` set (toast_timers (elapse d s))"
    then obtain p where "p \<in> set (toast_timers (elapse d s))" and "snd p = t_id x"
      by (auto simp: image_iff)
    then have "p \<in> set (toast_timers s)" and "snd p = t_id x"
      unfolding elapse_timer_mem by simp_all
    with b show False by (simp add: image_iff) metis
  qed
  from 1 2 False show ?thesis
    by (simp add: toast_scheduled_def elapse_fields(1))
qed

lemma toast_scheduled_run:
  assumes "toast_scheduled x due s" and "t_id x \<notin> set (added_ids evs)"
  shows "toast_scheduled x due (run_toasts evs s)
         \<and> clock (run_toasts evs s) = clock s + waited evs"
  using assms
proof (induction evs arbitrary: s)
  case Nil
  then show ?case by (simp add: run_toasts_def)
next
  case (Cons ev evs)
  show ?case
  proof (cases ev)
    case (AddToast msg ty tid)
    from Cons.prems(2) have ne: "tid \<noteq> t_id x" and rest: "t_id x \<notin> set (added_ids evs)"
      unfolding AddToast by auto
    from Cons.prems(1) ne have "toast_scheduled x due (addToast msg ty tid s)"
      by (rule toast_scheduled_add_other)
    from Cons.IH [OF this rest] show ?thesis
      unfolding AddToast by (simp add: run_toasts_def addToast_def)
  next
    case (Wait d)
    from Cons.prems(2) have rest: "t_id x \<notin> set (added_ids evs)"
      unfolding Wait by simp
    from Cons.prems(1) have "toast_scheduled x due (elapse d s)"
      by (rule toast_scheduled_elapse)
    from Cons.IH [OF this rest] show ?thesis
      unfolding Wait by (simp add: run_toasts_def elapse_fields(1))
  qed
qed


lemma elapse_others_toasts:
  "filter (\<lambda>t. t_id t \<noteq> i) (toasts (elapse d s)) =
     filter (\<lambda>t. t_id t \<notin> snd ` set (filter (\<lambda>p. fst p \<le> clock s + d)
                                          (filter (\<lambda>p. snd p \<noteq> i) (toast_timers s))))
       (filter (\<lambda>t. t_id t \<noteq> i) (toasts s))"
  unfolding elapse_fields filter_filter
  by (rule filter_cong [OF refl]) (auto simp: image_iff)

lemma elapse_others_timers:
  "filter (\<lambda>p. snd p \<noteq> i) (toast_timers (elapse d s)) =
     filter (\<lambda>p. \<not> fst p \<le> clock s + d) (filter (\<lambda>p. snd p \<noteq> i) (toast_timers s))"
  unfolding elapse_fields filter_filter
  by (rule filter_cong [OF refl]) auto

lemma same_but_step:
  assumes "same_but i s1 s2"
  shows "same_but i (toast_step ev s1) (toast_step ev s2)"
proof (cases ev)
  case (AddToast msg ty tid)
  with assms show ?thesis
    by (simp add: same_but_def addToast_def)
next
  case (Wait d)
  from assms have c: "clock s1 = clock s2"
    and t: "filter (\<lambda>t. t_id t \<noteq> i) (toasts s1) = filter (\<lambda>t. t_id t \<noteq> i) (toasts s2)"
    and m: "filter (\<lambda>p. snd p \<noteq> i) (toast_timers s1) =
            filter (\<lambda>p. snd p \<noteq> i) (toast_timers s2)"
    by (simp_all add: same_but_def)
  show ?thesis
    unfolding Wait toast_step.simps same_but_def elapse_others_toasts elapse_others_timers
      elapse_fields(1) c t m
    by simp
qed

lemma same_but_run:
  assumes "same_but i s1 s2"
  shows "same_but i (run_toasts evs s1) (run_toasts evs s2)"
  using assms
proof (induction evs arbitrary: s1 s2)
  case Nil
  then show ?case by (simp add: run_toasts_def)
next
  case (Cons ev evs)
  from Cons.prems have "same_but i (toast_step ev s1) (toast_step ev s2)"
    by (rule same_but_step)
  from Cons.IH [OF this] show ?case
    by (simp add: run_toasts_def)
qed

lemma same_but_addToast: "same_but i (addToast msg ty i s) s"
  by (simp add: same_but_def addToast_def)

text \<open>
  Claim C10. \<open>addToast\<close> appends its entry at the end of the queue. Let the generated
  identifier be fresh: no queued toast and no pending timer carries it, and no toast
  added later gets it. Then, whatever toasts are added and however time passes
  afterwards, the entry is in the queue exactly as long as less than the fixed duration
  (4000 ms) has passed since it was added. The toasts with another identifier are the
  same, in the same order, as if this toast had never been added (freshness is not needed
  for that): the removal drops the entries with this identifier and no other.
\<close>

theorem toast_lifetime:
  assumes "tid \<notin> t_id ` set (toasts s)" and "tid \<notin> snd ` set (toast_timers s)"
    and "tid \<notin> set (added_ids evs)"
  shows "toasts (addToast msg ty tid s) =
           toasts s @ [\<lparr>t_id = tid, t_type = ty, t_message = msg\<rparr>]
         \<and> (\<lparr>t_id = tid, t_type = ty, t_message = msg\<rparr>
               \<in> set (toasts (run_toasts evs (addToast msg ty tid s)))
             \<longleftrightarrow> waited evs < TOAST_DURATION)
         \<and> filter (\<lambda>t. t_id t \<noteq> tid) (toasts (run_toasts evs (addToast msg ty tid s))) =
             filter (\<lambda>t. t_id t \<noteq> tid) (toasts (run_toasts evs s))
         \<and> toasts (removeToast tid s) = filter (\<lambda>t. t_id t \<noteq> tid) (toasts s)"
proof -
  let ?x = "\<lparr>t_id = tid, t_type = ty, t_message = msg\<rparr>"
  let ?s0 = "addToast msg ty tid s"
  have app: "toasts ?s0 = toasts s @ [?x]"
    by (simp add: addToast_def)
  have "toast_scheduled ?x (clock s + TOAST_DURATION) ?s0"
    using assms(1,2) by (rule toast_scheduled_addToast)
  moreover have "t_id ?x \<notin> set (added_ids evs)"
    using assms(3) by simp
  ultimately have inv: "toast_scheduled ?x (clock s + TOAST_DURATION) (run_toasts evs ?s0)"
    and clk: "clock (run_toasts evs ?s0) = clock ?s0 + waited evs"
    using toast_scheduled_run [of ?x "clock s + TOAST_DURATION" ?s0 evs] by simp_all
  have clk0: "clock ?s0 = clock s"
    by (simp add: addToast_def)
  have life: "?x \<in> set (toasts (run_toasts evs ?s0)) \<longleftrightarrow> waited evs < TOAST_DURATION"
  proof (cases "waited evs < TOAST_DURATION")
    case True
    with inv show ?thesis
      by (simp add: toast_scheduled_def clk clk0)
  next
    case False
    with inv have "t_id ?x \<notin> t_id ` set (toasts (run_toasts evs ?s0))"
      by (simp add: toast_scheduled_def clk clk0)
    then have "?x \<notin> set (toasts (run_toasts evs ?s0))"
      by (rule contrapos_nn) (rule imageI)
    with False show ?thesis by simp
  qed
  have "same_but tid (run_toasts evs ?s0) (run_toasts evs s)"
    using same_but_addToast by (rule same_but_run)
  then have others: "filter (\<lambda>t. t_id t \<noteq> tid) (toasts (run_toasts evs ?s0)) =
      filter (\<lambda>t. t_id t \<noteq> tid) (toasts (run_toasts evs s))"
    by (simp add: same_but_def)
  have rm: "toasts (removeToast tid s) = filter (\<lambda>t. t_id t \<noteq> tid) (toasts s)"
    by (simp add: removeToast_def)
  from app life others rm show ?thesis by blast
qed


lemma demo_toast_run_expired:
  "toasts (run_toasts [Wait 1000, AddToast (str ''later'') Error (str ''t2''), Wait 3000]
     (addToast (str ''first'') Success (str ''t1'') demo_page)) =
   [\<lparr>t_id = str ''t2'', t_type = Error, t_message = str ''later''\<rparr>]"
  by (simp add: run_toasts_def addToast_def elapse_def removeToast_def demo_page_def
      TOAST_DURATION_def Let_def str_def)

theorem toast_lifetime_witness:
  "str ''t1'' \<notin> t_id ` set (toasts demo_page)
   \<and> str ''t1'' \<notin> snd ` set (toast_timers demo_page)
   \<and> \<lparr>t_id = str ''t1'', t_type = Success, t_message = str ''first''\<rparr>
       \<in> set (toasts (run_toasts [AddToast (str ''later'') Error (str ''t2''), Wait 3999]
                (addToast (str ''first'') Success (str ''t1'') demo_page)))
   \<and> \<lparr>t_id = str ''t1'', t_type = Success, t_message = str ''first''\<rparr>
       \<notin> set (toasts (run_toasts [Wait 1000, AddToast (str ''later'') Error (str ''t2''), Wait 3000]
                (addToast (str ''first'') Success (str ''t1'') demo_page)))
   \<and> toasts (run_toasts [Wait 1000, AddToast (str ''later'') Error (str ''t2''), Wait 3000]
        (addToast (str ''first'') Success (str ''t1'') demo_page)) =
       [\<lparr>t_id = str ''t2'', t_type = Error, t_message = str ''later''\<rparr>]"
proof -
  have h1: "str ''t1'' \<notin> t_id ` set (toasts demo_page)"
    and h2: "str ''t1'' \<notin> snd ` set (toast_timers demo_page)"
    by (simp_all add: demo_page_def)
  have h3: "str ''t1'' \<notin> set (added_ids [AddToast (str ''later'') Error (str ''t2''), Wait 3999])"
    and h4: "str ''t1'' \<notin> set (added_ids [Wait 1000, AddToast (str ''later'') Error (str ''t2''),
        Wait 3000])"
    by (simp_all add: str_def)
  note a = toast_lifetime [OF h1 h2 h3, of "str ''first''" Success]
  note b = toast_lifetime [OF h1 h2 h4, of "str ''first''" Success]
  from a have 1: "\<lparr>t_id = str ''t1'', t_type = Success, t_message = str ''first''\<rparr>
       \<in> set (toasts (run_toasts [AddToast (str ''later'') Error (str ''t2''), Wait 3999]
                (addToast (str ''first'') Success (str ''t1'') demo_page)))"
    by (simp add: TOAST_DURATION_def)
  from b have 2: "\<lparr>t_id = str ''t1'', t_type = Success, t_message = str ''first''\<rparr>
       \<notin> set (toasts (run_toasts [Wait 1000, AddToast (str ''later'') Error (str ''t2''), Wait 3000]
                (addToast (str ''first'') Success (str ''t1'') demo_page)))"
    by (simp add: TOAST_DURATION_def)
  from h1 h2 1 2 demo_toast_run_expired show ?thesis by blast
qed

end
